theory Spec2Isabelle
  imports Main
begin

section \<open>JavaScript values\<close>

text \<open>
  The values that \<open>script.js\<close> reads from the browser and hands to \<open>mkKV\<close>.
  Strings are byte lists (a non-ASCII character is its UTF-8 bytes). A number is
  \<open>NaN\<close>, an infinity, or a finite decimal \<open>Finite neg s n\<close>: with \<open>k\<close> the
  number of decimal digits of \<open>s\<close>, it stands for \<open>(-1)^neg * s * 10^(n - k)\<close>, the
  triple that ECMAScript's Number::toString works on (\<open>s = 0\<close> is zero; \<open>s\<close>
  carries no trailing zero unless \<open>k \<le> n\<close>). A promise is the time (milliseconds
  after its creation) and the way it settles, if it ever does.
\<close>

datatype js_error = TypeError | ReferenceError | DOMException | TimeoutError

datatype 'a settle = Pending | Resolved nat 'a | Rejected nat js_error

datatype jsnum = NaN | Infinity bool | Finite bool nat int

datatype jsval =
    JUndefined
  | JNull
  | JBool bool
  | JNum jsnum
  | JStr string
  | JArr "jsval list"
  | JPromise "jsval settle"

subsection \<open>Number to string\<close>

definition digit :: "nat \<Rightarrow> char" where
  "digit d = ''0123456789'' ! d"

fun digits :: "nat \<Rightarrow> string" where
  "digits n = (if n < 10 then [digit n] else digits (n div 10) @ [digit (n mod 10)])"

declare digits.simps [simp del]

text \<open>Number::toString for a positive finite number (radix 10).\<close>

definition pos_toString :: "nat \<Rightarrow> int \<Rightarrow> string" where
  "pos_toString s n =
     (let ds = digits s; k = int (length ds) in
      if -6 < n \<and> n \<le> 21 then
        (if k \<le> n then ds @ replicate (nat (n - k)) CHR ''0''
         else if 0 < n then take (nat n) ds @ ''.'' @ drop (nat n) ds
         else ''0.'' @ replicate (nat (- n)) CHR ''0'' @ ds)
      else
        (let e = n - 1;
             sgn = (if e < 0 then ''-'' else ''+'');
             es = digits (nat \<bar>e\<bar>) in
         if k = 1 then ds @ ''e'' @ sgn @ es
         else take 1 ds @ ''.'' @ drop 1 ds @ ''e'' @ sgn @ es))"

fun num_toString :: "jsnum \<Rightarrow> string" where
  "num_toString NaN = ''NaN''"
| "num_toString (Infinity neg) = (if neg then ''-Infinity'' else ''Infinity'')"
| "num_toString (Finite neg s n) =
     (if s = 0 then ''0''
      else (if neg then ''-'' else '''') @ pos_toString s n)"

text \<open>The number with the value of a natural number (an array length, a count).\<close>

definition number_of_nat :: "nat \<Rightarrow> jsnum" where
  "number_of_nat m = Finite False m (int (length (digits m)))"

subsection \<open>String(), truthiness, the operators \<open>||\<close> and \<open>??\<close>\<close>

fun js_join :: "string \<Rightarrow> string list \<Rightarrow> string" where
  "js_join sep [] = []"
| "js_join sep [x] = x"
| "js_join sep (x # y # ys) = x @ sep @ js_join sep (y # ys)"

text \<open>
  \<open>String(v)\<close>. An array is joined with commas, a null or undefined element
  giving the empty string (Array.prototype.toString).
\<close>

fun js_String :: "jsval \<Rightarrow> string" where
  "js_String JUndefined = ''undefined''"
| "js_String JNull = ''null''"
| "js_String (JBool b) = (if b then ''true'' else ''false'')"
| "js_String (JNum x) = num_toString x"
| "js_String (JStr s) = s"
| "js_String (JArr xs) =
     js_join '','' (map (\<lambda>x. if x = JUndefined \<or> x = JNull then [] else js_String x) xs)"
| "js_String (JPromise p) = ''[object Promise]''"

fun truthy :: "jsval \<Rightarrow> bool" where
  "truthy JUndefined = False"
| "truthy JNull = False"
| "truthy (JBool b) = b"
| "truthy (JNum NaN) = False"
| "truthy (JNum (Infinity neg)) = True"
| "truthy (JNum (Finite neg s n)) = (s \<noteq> 0)"
| "truthy (JStr s) = (s \<noteq> [])"
| "truthy (JArr xs) = True"
| "truthy (JPromise p) = True"

text \<open>\<open>a || b\<close>\<close>

definition js_or :: "jsval \<Rightarrow> jsval \<Rightarrow> jsval" where
  "js_or a b = (if truthy a then a else b)"

text \<open>\<open>a ?? b\<close>\<close>

definition nullish :: "jsval \<Rightarrow> jsval \<Rightarrow> jsval" where
  "nullish a b = (if a = JUndefined \<or> a = JNull then b else a)"

text \<open>The values that are not objects.\<close>

fun is_primitive :: "jsval \<Rightarrow> bool" where
  "is_primitive (JArr xs) = False"
| "is_primitive (JPromise p) = False"
| "is_primitive v = True"

section \<open>The rendered page: rows and cards\<close>

text \<open>
  \<open>mkKV\<close> builds a row \<open>div.kv\<close> of a key cell and a value cell; the model keeps
  the text content of the two cells. A probe's \<open>el\<close> is the list of the rows
  appended to it, in order. \<open>mkCard\<close> takes either a string (shown in a paragraph)
  or such an element.
\<close>

record kv =
  key :: string
  val :: string

datatype content = Para string | Rows "kv list"

record card =
  title :: string
  body :: content

definition mkCard :: "string \<Rightarrow> content \<Rightarrow> card" where
  "mkCard t contentEl =
     (case contentEl of
        Para s \<Rightarrow> \<lparr>title = t, body = Para (if s = [] then ''unknown'' else s)\<rparr>
      | Rows el \<Rightarrow> \<lparr>title = t, body = Rows el\<rparr>)"

definition mkKV :: "string \<Rightarrow> jsval \<Rightarrow> kv" where
  "mkKV k v =
     \<lparr>key = k,
      val = (if v = JUndefined \<or> v = JNull \<or> v = JStr [] then ''unknown'' else js_String v)\<rparr>"

text \<open>
  \<open>safe(fn, fallback)\<close>: the argument is what calling \<open>fn()\<close> does, throw or
  return a value; a returned promise is chained with
  \<open>.then(r => r ?? fallback).catch(() => fallback)\<close>.
\<close>

fun then_catch :: "jsval settle \<Rightarrow> jsval \<Rightarrow> jsval settle" where
  "then_catch Pending fallback = Pending"
| "then_catch (Resolved t r) fallback = Resolved t (nullish r fallback)"
| "then_catch (Rejected t e) fallback = Resolved t fallback"

fun safe :: "js_error + jsval \<Rightarrow> jsval \<Rightarrow> jsval" where
  "safe (Inl e) fallback = fallback"
| "safe (Inr (JPromise p)) fallback = JPromise (then_catch p fallback)"
| "safe (Inr v) fallback = nullish v fallback"


section \<open>JSON.stringify, for the two objects the probes serialise\<close>

definition json_escape :: "char \<Rightarrow> string" where
  "json_escape c =
     (if c = CHR 0x08 then [CHR 0x5C, CHR ''b'']
      else if c = CHR 0x09 then [CHR 0x5C, CHR ''t'']
      else if c = CHR 0x0A then [CHR 0x5C, CHR ''n'']
      else if c = CHR 0x0C then [CHR 0x5C, CHR ''f'']
      else if c = CHR 0x0D then [CHR 0x5C, CHR ''r'']
      else if c = CHR 0x22 then [CHR 0x5C, CHR 0x22]
      else if c = CHR 0x5C then [CHR 0x5C, CHR 0x5C]
      else if (of_char c :: nat) < 32 then
        [CHR 0x5C, CHR ''u'', CHR ''0'', CHR ''0'',
         ''0123456789abcdef'' ! ((of_char c :: nat) div 16),
         ''0123456789abcdef'' ! ((of_char c :: nat) mod 16)]
      else [c])"

definition json_quote :: "string \<Rightarrow> string" where
  "json_quote s = [CHR 0x22] @ concat (map json_escape s) @ [CHR 0x22]"

record brand_version =
  bv_brand :: string
  bv_version :: string

record ua_data =
  ua_brands :: "brand_version list"
  ua_mobile :: bool
  ua_platform :: string

definition json_brand :: "brand_version \<Rightarrow> string" where
  "json_brand b =
     ''{'' @ json_quote ''brand'' @ '':'' @ json_quote (bv_brand b) @ '','' @
     json_quote ''version'' @ '':'' @ json_quote (bv_version b) @ ''}''"

text \<open>\<open>JSON.stringify({brands: .., mobile: .., platform: ..})\<close>\<close>

definition json_ua :: "ua_data \<Rightarrow> string" where
  "json_ua d =
     ''{'' @ json_quote ''brands'' @ '':['' @ js_join '','' (map json_brand (ua_brands d)) @ ''],'' @
     json_quote ''mobile'' @ '':'' @ (if ua_mobile d then ''true'' else ''false'') @ '','' @
     json_quote ''platform'' @ '':'' @ json_quote (ua_platform d) @ ''}''"

datatype device_kind = AudioInput | AudioOutput | VideoInput

fun kind_name :: "device_kind \<Rightarrow> string" where
  "kind_name AudioInput = ''audioinput''"
| "kind_name AudioOutput = ''audiooutput''"
| "kind_name VideoInput = ''videoinput''"

text \<open>
  The object \<open>byType\<close> of \<open>gatherMediaDevices\<close>: its keys in insertion order, each
  with its count.
\<close>

type_synonym by_type = "(device_kind \<times> nat) list"

definition json_byType :: "by_type \<Rightarrow> string" where
  "json_byType acc =
     ''{'' @ js_join '','' (map (\<lambda>(k, c). json_quote (kind_name k) @ '':'' @ digits c) acc) @ ''}''"

section \<open>The environment the probes query\<close>

text \<open>
  What the browser answers when the probes ask. A property that is not there reads
  as undefined (\<open>JUndefined\<close>, or \<open>None\<close> for an object the probes look into);
  reading a property does not throw, except \<open>localStorage\<close>, which the source
  reads inside \<open>try\<close>, and \<open>navigator.serviceWorker\<close>, whose getter throws in
  a sandboxed context; an object that is there has the shape its Web IDL gives it.
  The answers do not change while the page runs. A method that returns a promise
  either throws when called or returns the promise; awaiting the call inside
  \<open>try\<close> sees a throw as a rejection at once.
\<close>

datatype 'a call = Throws js_error | Returns "'a settle"

fun await_call :: "'a call \<Rightarrow> 'a settle" where
  "await_call (Throws e) = Rejected 0 e"
| "await_call (Returns p) = p"

record ua_screen_orientation =
  ori_type :: jsval
  ori_angle :: jsval

record ua_screen =
  scr_width :: jsval
  scr_height :: jsval
  scr_availWidth :: jsval
  scr_availHeight :: jsval
  scr_colorDepth :: jsval
  scr_orientation :: "ua_screen_orientation option"

text \<open>
  A WebGL context: whether \<open>getExtension('WEBGL_debug_renderer_info')\<close> throws or
  finds the extension, and what each of the four \<open>getParameter\<close> calls does.
\<close>

record gl_context =
  gl_debug_renderer_info :: "js_error + bool"
  gl_unmasked_vendor :: "js_error + jsval"
  gl_unmasked_renderer :: "js_error + jsval"
  gl_vendor :: "js_error + jsval"
  gl_renderer :: "js_error + jsval"

record battery =
  bat_charging :: jsval
  bat_level :: jsval
  bat_chargingTime :: jsval
  bat_dischargingTime :: jsval

record connection =
  conn_effectiveType :: jsval
  conn_downlink :: jsval
  conn_rtt :: jsval
  conn_saveData :: jsval

text \<open>
  \<open>navigator.permissions\<close>: its \<open>query\<close> method, if it has one, maps a permission
  name to a call whose promise resolves to a status; the model keeps the status's
  \<open>state\<close>.
\<close>

record permissions =
  perm_query :: "(string \<Rightarrow> jsval call) option"

record coords =
  pos_latitude :: jsval
  pos_longitude :: jsval
  pos_accuracy :: jsval
  pos_altitude :: jsval

text \<open>
  What \<open>navigator.geolocation.getCurrentPosition(success, error, options)\<close> does:
  throw, call \<open>success\<close> or \<open>error\<close> after some milliseconds, or call neither.
\<close>

datatype geo_reply =
    GeoThrows js_error
  | GeoSuccess nat coords
  | GeoError nat js_error
  | GeoSilent

record media_device =
  dev_kind :: device_kind
  dev_label :: string

record media_devices =
  md_enumerateDevices :: "(media_device list call) option"

record clipboard =
  clip_writeText :: jsval
  clip_readText :: jsval

record perf_timing =
  tm_navigationStart :: jsval
  tm_domContentLoadedEventEnd :: jsval
  tm_loadEventEnd :: jsval

text \<open>
  The global \<open>performance\<close>: \<open>perf_nav\<close> is what
  \<open>performance.getEntriesByType('navigation')[0]\<close> does (throw, or give the first
  entry if there is one), \<open>perf_now\<close> what \<open>performance.now()\<close> does.
\<close>

record performance =
  perf_timeOrigin :: jsval
  perf_timing :: "perf_timing option"
  perf_nav :: "js_error + perf_timing option"
  perf_now :: "js_error + jsval"

text \<open>
  An audio context constructor: \<open>new AudioCtx()\<close> throws or gives a context, of
  which the probe asks whether \<open>createOscillator\<close> is a function and then runs
  the oscillator set-up, which may throw (\<open>Some e\<close>).
\<close>

record audio_ctx =
  actx_has_createOscillator :: bool
  actx_setup_throws :: "js_error option"

record audio_ctor =
  actor_construct :: "js_error + audio_ctx"

record device_motion_event =
  dme_requestPermission_is_function :: bool

record navigator =
  nav_userAgent :: jsval
  nav_userAgentData :: "ua_data option"
  nav_platform :: jsval
  nav_language :: jsval
  nav_languages :: "string list option"
  nav_cookieEnabled :: jsval
  nav_doNotTrack :: jsval
  nav_vendor :: jsval
  nav_hardwareConcurrency :: jsval
  nav_deviceMemory :: jsval
  nav_maxTouchPoints :: jsval
  nav_getBattery :: "battery call option"
  nav_connection :: "connection option"
  nav_mozConnection :: "connection option"
  nav_webkitConnection :: "connection option"
  nav_onLine :: jsval
  nav_has_geolocation :: bool
  nav_getCurrentPosition :: geo_reply
  nav_permissions :: "permissions option"
  nav_mediaDevices :: "media_devices option"
  nav_serviceWorker :: "js_error + jsval"
  nav_clipboard :: "clipboard option"
  nav_bluetooth :: jsval
  nav_usb :: jsval
  nav_serial :: jsval
  nav_hid :: jsval
  nav_getGamepads :: jsval

record window =
  win_screen :: "ua_screen option"
  win_devicePixelRatio :: jsval
  win_innerWidth :: jsval
  win_innerHeight :: jsval
  win_Accelerometer :: jsval
  win_AudioContext :: "audio_ctor option"
  win_webkitAudioContext :: "audio_ctor option"
  win_localStorage :: "js_error + jsval"
  win_indexedDB :: jsval
  win_showOpenFilePicker :: jsval

text \<open>
  The globals \<open>navigator\<close>, \<open>window\<close> and \<open>document\<close> exist (the script's first
  lines already use \<open>document\<close>). Of \<open>document\<close> the probes use only
  \<open>createElement\<close>: for a fresh canvas, what \<open>getContext('webgl')\<close> and
  \<open>getContext('experimental-webgl')\<close> do, and what the 2D drawing of the canvas probe
  up to \<open>toDataURL()\<close> does (throw, as when \<open>getContext('2d')\<close> is null, or give
  the data URL).
\<close>

record env =
  navigator :: navigator
  window :: window
  performance :: "performance option"
  DeviceMotionEvent :: "device_motion_event option"
  canvas_webgl :: "js_error + gl_context option"
  canvas_experimental_webgl :: "js_error + gl_context option"
  canvas_2d_dataURL :: "js_error + string"


section \<open>The probes\<close>

text \<open>
  A probe is an async function: its promise resolves with a card or rejects, some
  milliseconds after the call (the sum of what it awaited), or stays pending. The
  template literal \<open>`${a} x ${b}`\<close> is \<open>js_String a @ '' x '' @ js_String b\<close>.
\<close>

type_synonym probe = "env \<Rightarrow> card settle"

subsection \<open>gatherBasic\<close>

text \<open>The arrow function handed to \<open>safe\<close>.\<close>

definition userAgentData_fn :: "navigator \<Rightarrow> js_error + jsval" where
  "userAgentData_fn nav =
     Inr (case nav_userAgentData nav of
            Some d \<Rightarrow> JStr (json_ua d)
          | None \<Rightarrow> JStr ''unsupported'')"

definition languages_joined :: "navigator \<Rightarrow> jsval" where
  "languages_joined nav =
     (case nav_languages nav of
        None \<Rightarrow> JUndefined
      | Some ls \<Rightarrow> JStr (js_join '', '' ls))"

definition gatherBasic :: probe where
  "gatherBasic e =
     (let nav = navigator e in
      Resolved 0 (mkCard ''Browser & Locale'' (Rows
        [mkKV ''userAgent'' (js_or (nav_userAgent nav) (JStr ''unknown'')),
         mkKV ''userAgentData'' (safe (userAgentData_fn nav) (JStr ''unknown'')),
         mkKV ''platform'' (js_or (nav_platform nav) (JStr ''unknown'')),
         mkKV ''language'' (js_or (nav_language nav) (JStr ''unknown'')),
         mkKV ''languages'' (js_or (languages_joined nav) (JStr ''unknown'')),
         mkKV ''cookieEnabled'' (nav_cookieEnabled nav),
         mkKV ''doNotTrack'' (js_or (nav_doNotTrack nav) (JStr ''unknown'')),
         mkKV ''vendor'' (js_or (nav_vendor nav) (JStr ''unknown''))])))"

subsection \<open>gatherScreen\<close>

text \<open>
  \<open>s = window.screen || {}\<close>: a property of \<open>s\<close> is undefined when there is no
  screen. Line 75 reads \<open>screen.orientation\<close> from the global \<open>screen\<close> itself,
  which throws when there is none; the rows built before are lost with the
  rejection.
\<close>

definition screen_prop :: "ua_screen option \<Rightarrow> (ua_screen \<Rightarrow> jsval) \<Rightarrow> jsval" where
  "screen_prop s f = (case s of None \<Rightarrow> JUndefined | Some sc \<Rightarrow> f sc)"

definition degree_sign :: string where
  "degree_sign = [CHR 0xC2, CHR 0xB0]"

definition gatherScreen :: probe where
  "gatherScreen e =
     (let w = window e;
          s = win_screen w;
          el =
            [mkKV ''screenWxH''
               (JStr (js_String (js_or (screen_prop s scr_width) (JStr ''unknown'')) @ '' x '' @
                      js_String (js_or (screen_prop s scr_height) (JStr ''unknown'')))),
             mkKV ''availWxH''
               (JStr (js_String (js_or (screen_prop s scr_availWidth) (JStr ''unknown'')) @ '' x '' @
                      js_String (js_or (screen_prop s scr_availHeight) (JStr ''unknown'')))),
             mkKV ''colorDepth'' (nullish (screen_prop s scr_colorDepth) (JStr ''unknown'')),
             mkKV ''pixelRatio'' (nullish (win_devicePixelRatio w) (JStr ''unknown'')),
             mkKV ''viewportWxH''
               (JStr (js_String (win_innerWidth w) @ '' x '' @ js_String (win_innerHeight w)))]
      in case win_screen w of
           None \<Rightarrow> Rejected 0 TypeError
         | Some sc \<Rightarrow>
             (case scr_orientation sc of
                None \<Rightarrow> Resolved 0 (mkCard ''Display & Viewport'' (Rows el))
              | Some ori \<Rightarrow>
                  Resolved 0 (mkCard ''Display & Viewport'' (Rows (el @
                    [mkKV ''orientation''
                       (JStr (js_String (js_or (ori_type ori) (JStr ''unknown'')) @ '' @ '' @
                              js_String (js_or (ori_angle ori) (JNum (Finite False 0 0))) @
                              degree_sign))])))))"

subsection \<open>gatherHardware\<close>

text \<open>The rows of the \<open>try\<close> block once a context \<open>gl\<close> is there.\<close>

definition gl_rows :: "gl_context \<Rightarrow> kv list" where
  "gl_rows gl =
     (case gl_debug_renderer_info gl of
        Inl e \<Rightarrow> [mkKV ''webgl'' (JStr ''unknown'')]
      | Inr dbg \<Rightarrow>
          (case (if dbg then gl_unmasked_vendor gl else gl_vendor gl) of
             Inl e \<Rightarrow> [mkKV ''webgl'' (JStr ''unknown'')]
           | Inr vendor \<Rightarrow>
               (case (if dbg then gl_unmasked_renderer gl else gl_renderer gl) of
                  Inl e \<Rightarrow> [mkKV ''webgl'' (JStr ''unknown'')]
                | Inr renderer \<Rightarrow>
                    [mkKV ''webglVendor'' vendor, mkKV ''webglRenderer'' renderer])))"

text \<open>\<open>canvas.getContext('webgl') || canvas.getContext('experimental-webgl')\<close>, in \<open>try\<close>.\<close>

definition webgl_rows :: "env \<Rightarrow> kv list" where
  "webgl_rows e =
     (case canvas_webgl e of
        Inl err \<Rightarrow> [mkKV ''webgl'' (JStr ''unknown'')]
      | Inr (Some gl) \<Rightarrow> gl_rows gl
      | Inr None \<Rightarrow>
          (case canvas_experimental_webgl e of
             Inl err \<Rightarrow> [mkKV ''webgl'' (JStr ''unknown'')]
           | Inr (Some gl) \<Rightarrow> gl_rows gl
           | Inr None \<Rightarrow> [mkKV ''webgl'' (JStr ''unsupported'')]))"

definition gatherHardware :: probe where
  "gatherHardware e =
     (let nav = navigator e in
      Resolved 0 (mkCard ''Hardware Hints'' (Rows
        ([mkKV ''hardwareConcurrency'' (nullish (nav_hardwareConcurrency nav) (JStr ''unknown'')),
          mkKV ''deviceMemory'' (nullish (nav_deviceMemory nav) (JStr ''unknown'')),
          mkKV ''maxTouchPoints'' (nullish (nav_maxTouchPoints nav) (JStr ''unknown''))]
         @ webgl_rows e))))"

subsection \<open>gatherBattery\<close>

definition gatherBattery :: probe where
  "gatherBattery e =
     (case nav_getBattery (navigator e) of
        None \<Rightarrow> Resolved 0 (mkCard ''Battery'' (Rows [mkKV ''battery'' (JStr ''unsupported'')]))
      | Some getBattery \<Rightarrow>
          (case await_call getBattery of
             Pending \<Rightarrow> Pending
           | Resolved t b \<Rightarrow>
               Resolved t (mkCard ''Battery'' (Rows
                 [mkKV ''charging'' (bat_charging b),
                  mkKV ''level'' (bat_level b),
                  mkKV ''chargingTime'' (bat_chargingTime b),
                  mkKV ''dischargingTime'' (bat_dischargingTime b)]))
           | Rejected t err \<Rightarrow>
               Resolved t (mkCard ''Battery'' (Rows [mkKV ''battery'' (JStr ''unknown'')]))))"

subsection \<open>gatherNetwork\<close>

text \<open>\<open>navigator.connection || navigator.mozConnection || navigator.webkitConnection\<close>\<close>

definition navConn :: "navigator \<Rightarrow> connection option" where
  "navConn nav =
     (case nav_connection nav of
        Some c \<Rightarrow> Some c
      | None \<Rightarrow>
          (case nav_mozConnection nav of
             Some c \<Rightarrow> Some c
           | None \<Rightarrow> nav_webkitConnection nav))"

definition gatherNetwork :: probe where
  "gatherNetwork e =
     (let nav = navigator e in
      Resolved 0 (mkCard ''Network'' (Rows
        ([mkKV ''online'' (nav_onLine nav)] @
         (case navConn nav of
            Some c \<Rightarrow>
              [mkKV ''effectiveType'' (nullish (conn_effectiveType c) (JStr ''unknown'')),
               mkKV ''downlink'' (nullish (conn_downlink c) (JStr ''unknown'')),
               mkKV ''rtt'' (nullish (conn_rtt c) (JStr ''unknown'')),
               mkKV ''saveData'' (nullish (conn_saveData c) (JStr ''unknown''))]
          | None \<Rightarrow> [mkKV ''networkAPI'' (JStr ''unsupported'')]) @
         [mkKV ''publicIP'' (JStr ''unknown (use server or STUN)'')]))))"


subsection \<open>gatherGeo\<close>

text \<open>
  The promise built around \<open>getCurrentPosition\<close>: a timer rejects it after 8000 ms
  unless a callback came first and cleared the timer (a callback due at 8000 ms or
  later finds the promise settled). A throw inside the executor rejects it at once.
\<close>

fun wait_position :: "geo_reply \<Rightarrow> coords settle" where
  "wait_position (GeoThrows err) = Rejected 0 err"
| "wait_position (GeoSuccess t p) =
     (if t < 8000 then Resolved t p else Rejected 8000 TimeoutError)"
| "wait_position (GeoError t err) =
     (if t < 8000 then Rejected t err else Rejected 8000 TimeoutError)"
| "wait_position GeoSilent = Rejected 8000 TimeoutError"

text \<open>
  The first \<open>try\<close> block: the permission state and the time it took; \<open>None\<close> when
  the query's promise never settles.
\<close>

definition geo_permState :: "navigator \<Rightarrow> (nat \<times> jsval) option" where
  "geo_permState nav =
     (case nav_permissions nav of
        None \<Rightarrow> Some (0, JStr ''unknown'')
      | Some perms \<Rightarrow>
          (case perm_query perms of
             None \<Rightarrow> Some (0, JStr ''unknown'')
           | Some query \<Rightarrow>
               (case await_call (query ''geolocation'') of
                  Pending \<Rightarrow> None
                | Resolved t st \<Rightarrow> Some (t, st)
                | Rejected t err \<Rightarrow> Some (t, JStr ''unknown''))))"

text \<open>
  The run of \<open>gatherGeo\<close>: whether it called \<open>getCurrentPosition\<close>, and its
  promise.
\<close>

record geo_run =
  position_requested :: bool
  geo_result :: "card settle"

definition gatherGeo_run :: "env \<Rightarrow> geo_run" where
  "gatherGeo_run e =
     (let nav = navigator e in
      if \<not> nav_has_geolocation nav then
        \<lparr>position_requested = False,
         geo_result =
           Resolved 0 (mkCard ''Geolocation'' (Rows [mkKV ''geolocation'' (JStr ''unsupported'')]))\<rparr>
      else
        (case geo_permState nav of
           None \<Rightarrow> \<lparr>position_requested = False, geo_result = Pending\<rparr>
         | Some (t, permState) \<Rightarrow>
             (let el = [mkKV ''permission'' permState] in
              if permState = JStr ''granted'' \<or> permState = JStr ''prompt'' then
                \<lparr>position_requested = True,
                 geo_result =
                   (case wait_position (nav_getCurrentPosition nav) of
                      Pending \<Rightarrow> Pending
                    | Resolved u pos \<Rightarrow>
                        Resolved (t + u) (mkCard ''Geolocation'' (Rows (el @
                          [mkKV ''coords''
                             (JStr (js_String (pos_latitude pos) @ '', '' @
                                    js_String (pos_longitude pos))),
                           mkKV ''accuracy_m'' (pos_accuracy pos),
                           mkKV ''altitude'' (nullish (pos_altitude pos) (JStr ''null''))])))
                    | Rejected u err \<Rightarrow>
                        Resolved (t + u) (mkCard ''Geolocation'' (Rows (el @
                          [mkKV ''coords'' (JStr ''unknown or blocked'')]))))\<rparr>
              else
                \<lparr>position_requested = False,
                 geo_result =
                   Resolved t (mkCard ''Geolocation'' (Rows (el @
                     [mkKV ''coords'' (JStr ''unknown (permission denied or prompt)'')])))\<rparr>)))"

definition gatherGeo :: probe where
  "gatherGeo e = geo_result (gatherGeo_run e)"

subsection \<open>gatherMediaDevices\<close>

text \<open>The callback of \<open>devices.reduce\<close>: \<open>acc[d.kind] = acc[d.kind] || 0; acc[d.kind]++\<close>.\<close>

fun count_kind :: "by_type \<Rightarrow> device_kind \<Rightarrow> by_type" where
  "count_kind [] k = [(k, 1)]"
| "count_kind ((k', c) # acc) k =
     (if k' = k then (k', c + 1) # acc else (k', c) # count_kind acc k)"

definition byType :: "media_device list \<Rightarrow> by_type" where
  "byType devices = foldl (\<lambda>acc d. count_kind acc (dev_kind d)) [] devices"

text \<open>\<open>navigator.mediaDevices\<close> with its \<open>enumerateDevices\<close>, when both are there.\<close>

definition enumerateDevices :: "navigator \<Rightarrow> (media_device list call) option" where
  "enumerateDevices nav =
     (case nav_mediaDevices nav of
        None \<Rightarrow> None
      | Some md \<Rightarrow> md_enumerateDevices md)"

definition gatherMediaDevices :: probe where
  "gatherMediaDevices e =
     (case enumerateDevices (navigator e) of
        None \<Rightarrow>
          Resolved 0 (mkCard ''Media Devices'' (Rows [mkKV ''mediaDevices'' (JStr ''unsupported'')]))
      | Some enumerateFn \<Rightarrow>
          (case await_call enumerateFn of
             Pending \<Rightarrow> Pending
           | Resolved t devices \<Rightarrow>
               Resolved t (mkCard ''Media & Devices'' (Rows
                 [mkKV ''count'' (JNum (number_of_nat (length devices))),
                  mkKV ''kinds'' (JStr (json_byType (byType devices))),
                  mkKV ''deviceLabelsAvailable''
                    (JBool (list_ex (\<lambda>d. dev_label d \<noteq> [] \<and> length (dev_label d) > 0) devices))]))
           | Rejected t err \<Rightarrow>
               Resolved t (mkCard ''Media & Devices'' (Rows
                 [mkKV ''mediaDevices'' (JStr ''unknown'')]))))"

subsection \<open>gatherPermissions\<close>

definition names :: "string list" where
  "names = [''geolocation'', ''microphone'', ''camera'', ''notifications'',
            ''persistent-storage'', ''push'', ''clipboard-read'', ''clipboard-write'',
            ''background-sync'']"

text \<open>
  The \<open>for\<close> loop over the names, with the rows appended so far and the time
  elapsed; \<open>None\<close> when a query never settles. The inner \<open>catch\<close> takes every
  throw and rejection, so the outer \<open>catch\<close> (the row \<open>permissions: error\<close>) has
  nothing left to take.
\<close>

fun query_each :: "(string \<Rightarrow> jsval call) \<Rightarrow> string list \<Rightarrow> kv list \<Rightarrow> nat \<Rightarrow> (kv list \<times> nat) option" where
  "query_each query [] el t = Some (el, t)"
| "query_each query (name # rest) el t =
     (case await_call (query name) of
        Pending \<Rightarrow> None
      | Resolved d st \<Rightarrow> query_each query rest (el @ [mkKV name st]) (t + d)
      | Rejected d err \<Rightarrow> query_each query rest (el @ [mkKV name (JStr ''unknown'')]) (t + d))"

definition permissions_query :: "navigator \<Rightarrow> (string \<Rightarrow> jsval call) option" where
  "permissions_query nav =
     (case nav_permissions nav of
        None \<Rightarrow> None
      | Some perms \<Rightarrow> perm_query perms)"

definition gatherPermissions :: probe where
  "gatherPermissions e =
     (case permissions_query (navigator e) of
        None \<Rightarrow>
          Resolved 0 (mkCard ''Permissions'' (Rows [mkKV ''permissionsAPI'' (JStr ''unsupported'')]))
      | Some query \<Rightarrow>
          (case query_each query names [] 0 of
             None \<Rightarrow> Pending
           | Some (el, t) \<Rightarrow> Resolved t (mkCard ''Permissions'' (Rows el))))"

subsection \<open>gatherPerformance\<close>

text \<open>
  One \<open>try\<close> around everything: a throw keeps the rows appended before it and adds
  the row \<open>performance: unknown\<close>. Without a global \<open>performance\<close> the first
  line throws.
\<close>

definition timing_prop :: "perf_timing option \<Rightarrow> (perf_timing \<Rightarrow> jsval) \<Rightarrow> jsval" where
  "timing_prop tm f = (case tm of None \<Rightarrow> JUndefined | Some t \<Rightarrow> f t)"

definition performance_rows :: "performance option \<Rightarrow> kv list" where
  "performance_rows perf =
     (case perf of
        None \<Rightarrow> [mkKV ''performance'' (JStr ''unknown'')]
      | Some p \<Rightarrow>
          (let el1 = [mkKV ''timeOrigin''
                        (js_or (js_or (perf_timeOrigin p)
                                      (timing_prop (perf_timing p) tm_navigationStart))
                               (JStr ''unknown''))]
           in case perf_nav p of
                Inl err \<Rightarrow> el1 @ [mkKV ''performance'' (JStr ''unknown'')]
              | Inr nav \<Rightarrow>
                  (let el2 = el1 @
                         (case nav of
                            Some n \<Rightarrow>
                              [mkKV ''domContentLoaded'' (tm_domContentLoadedEventEnd n),
                               mkKV ''loadEventEnd'' (tm_loadEventEnd n)]
                          | None \<Rightarrow>
                              (case perf_timing p of
                                 Some tm \<Rightarrow>
                                   [mkKV ''domContentLoaded'' (tm_domContentLoadedEventEnd tm),
                                    mkKV ''loadEventEnd'' (tm_loadEventEnd tm)]
                               | None \<Rightarrow> []))
                   in case perf_now p of
                        Inl err \<Rightarrow> el2 @ [mkKV ''performance'' (JStr ''unknown'')]
                      | Inr now \<Rightarrow> el2 @ [mkKV ''perfNow'' now])))"

definition gatherPerformance :: probe where
  "gatherPerformance e = Resolved 0 (mkCard ''Performance'' (Rows (performance_rows (performance e))))"


subsection \<open>gatherSensors\<close>

definition gatherSensors :: probe where
  "gatherSensors e =
     Resolved 0 (mkCard ''Sensors'' (Rows
       ((case DeviceMotionEvent e of
           Some dme \<Rightarrow>
             (if dme_requestPermission_is_function dme then
                [mkKV ''DeviceMotion API'' (JStr ''requires gesture to request''),
                 mkKV ''deviceMotionPermission'' (JStr ''not-requested'')]
              else [mkKV ''DeviceMotion API'' (JStr ''available (may be restricted)'')])
         | None \<Rightarrow> [mkKV ''DeviceMotion API'' (JStr ''unsupported'')]) @
        [mkKV ''GenericSensor''
           (if win_Accelerometer (window e) \<noteq> JUndefined then JStr ''available''
            else JStr ''unsupported'')])))"

subsection \<open>gatherCanvasAudioFingerprintingProbe\<close>

definition canvas_row :: "env \<Rightarrow> kv" where
  "canvas_row e =
     (case canvas_2d_dataURL e of
        Inl err \<Rightarrow> mkKV ''canvasProbe'' (JStr ''error'')
      | Inr data \<Rightarrow> mkKV ''canvasProbe'' (JStr (take 80 data @ ''...'')))"

text \<open>\<open>window.AudioContext || window.webkitAudioContext\<close>\<close>

definition AudioCtx :: "window \<Rightarrow> audio_ctor option" where
  "AudioCtx w =
     (case win_AudioContext w of
        Some c \<Rightarrow> Some c
      | None \<Rightarrow> win_webkitAudioContext w)"

definition audio_row :: "env \<Rightarrow> kv" where
  "audio_row e =
     (case AudioCtx (window e) of
        None \<Rightarrow> mkKV ''audioContext'' (JStr ''unsupported'')
      | Some ctor \<Rightarrow>
          (case actor_construct ctor of
             Inl err \<Rightarrow> mkKV ''audioContext'' (JStr ''error'')
           | Inr ctx \<Rightarrow>
               (if actx_has_createOscillator ctx then
                  (case actx_setup_throws ctx of
                     Some err \<Rightarrow> mkKV ''audioContext'' (JStr ''error'')
                   | None \<Rightarrow> mkKV ''audioContext'' (JStr ''available''))
                else mkKV ''audioContext'' (JStr ''limited''))))"

definition gatherCanvasAudioFingerprintingProbe :: probe where
  "gatherCanvasAudioFingerprintingProbe e =
     Resolved 0 (mkCard ''Canvas / Audio Probes'' (Rows [canvas_row e, audio_row e]))"

subsection \<open>gatherWebAPIs\<close>

text \<open>
  The array \<open>features\<close>, built before the loop: reading
  \<open>navigator.serviceWorker\<close> for its first entry is outside any \<open>try\<close>, so a
  throw there leaves the function.
\<close>

definition features :: "env \<Rightarrow> js_error + (string \<times> bool) list" where
  "features e =
     (let nav = navigator e; w = window e in
      case nav_serviceWorker nav of
        Inl err \<Rightarrow> Inl err
      | Inr serviceWorker \<Rightarrow>
          Inr [(''ServiceWorker'', truthy serviceWorker),
               (''localStorage'',
                  (case win_localStorage w of Inl err \<Rightarrow> False | Inr ls \<Rightarrow> truthy ls)),
               (''IndexedDB'', truthy (win_indexedDB w)),
               (''FileSystem Access'', truthy (win_showOpenFilePicker w)),
               (''Clipboard (write)'',
                  (case nav_clipboard nav of None \<Rightarrow> False | Some c \<Rightarrow> truthy (clip_writeText c))),
               (''Clipboard (read)'',
                  (case nav_clipboard nav of None \<Rightarrow> False | Some c \<Rightarrow> truthy (clip_readText c))),
               (''WebBluetooth'', truthy (nav_bluetooth nav)),
               (''WebUSB'', truthy (nav_usb nav)),
               (''WebSerial'', truthy (nav_serial nav)),
               (''WebHID'', truthy (nav_hid nav)),
               (''Gamepad'', truthy (nav_getGamepads nav))])"

definition gatherWebAPIs :: probe where
  "gatherWebAPIs e =
     (case features e of
        Inl err \<Rightarrow> Rejected 0 err
      | Inr fs \<Rightarrow> Resolved 0 (mkCard ''Web APIs'' (Rows (map (\<lambda>(k, v). mkKV k (JBool v)) fs))))"

section \<open>The orchestrator\<close>

text \<open>
  The page: the children of \<open>#cards\<close>, the display of \<open>#loader\<close> and the refresh
  button, each absent when \<open>getElementById\<close> found nothing.
\<close>

datatype display = Shown | Hidden

record button =
  btn_disabled :: bool
  btn_textContent :: string

record page =
  CARDS_ROOT :: "card list option"
  loader :: "display option"
  REFRESH_BTN :: "button option"

definition probes :: "probe list" where
  "probes =
     [gatherBasic,
      gatherScreen,
      gatherHardware,
      gatherBattery,
      gatherNetwork,
      gatherGeo,
      gatherMediaDevices,
      gatherPermissions,
      gatherPerformance,
      gatherSensors,
      gatherCanvasAudioFingerprintingProbe,
      gatherWebAPIs]"

text \<open>
  The \<open>for\<close> loop of \<open>gatherAll\<close>, with the cards appended so far and the time
  elapsed. It gives the cards in \<open>#cards\<close> when the loop ends or stops for good, and
  the time at which it ends (\<open>None\<close>: a probe's promise never settles and the loop
  never gets past it).
\<close>

fun run_probes :: "probe list \<Rightarrow> env \<Rightarrow> card list \<Rightarrow> nat \<Rightarrow> card list \<times> nat option" where
  "run_probes [] e root t = (root, Some t)"
| "run_probes (p # ps) e root t =
     (case p e of
        Pending \<Rightarrow> (root, None)
      | Resolved d c \<Rightarrow> run_probes ps e (root @ [c]) (t + d)
      | Rejected d err \<Rightarrow> run_probes ps e (root @ [mkCard ''error'' (Para ''unknown'')]) (t + d))"

definition gatherAll :: "env \<Rightarrow> page \<Rightarrow> page \<times> nat option" where
  "gatherAll e pg =
     (case CARDS_ROOT pg of
        None \<Rightarrow> (pg, Some 0)
      | Some old \<Rightarrow>
          (let (root, fin) = run_probes probes e [] 0
           in (pg\<lparr>CARDS_ROOT := Some root\<rparr>, fin)))"

section \<open>The loader and the refresh button\<close>

text \<open>\<open>Promise.all\<close> of two promises: rejected by the first rejection, fulfilled when both are.\<close>

fun promise_all :: "'a settle \<Rightarrow> 'b settle \<Rightarrow> unit settle" where
  "promise_all (Rejected t err) (Rejected u err') =
     (if t \<le> u then Rejected t err else Rejected u err')"
| "promise_all (Rejected t err) q = Rejected t err"
| "promise_all p (Rejected u err') = Rejected u err'"
| "promise_all (Resolved t x) (Resolved u y) = Resolved (max t u) ()"
| "promise_all p q = Pending"

definition hide_loader :: "page \<Rightarrow> page" where
  "hide_loader pg = pg\<lparr>loader := map_option (\<lambda>d. Hidden) (loader pg)\<rparr>"

text \<open>
  \<open>initFlow\<close>, called at time 0: the page it leaves and its promise. The timer of
  \<open>minWait\<close> fires 7000 ms after the call.
\<close>

definition initFlow :: "env \<Rightarrow> page \<Rightarrow> page \<times> unit settle" where
  "initFlow e pg =
     (let (pg1, fin) = gatherAll e pg;
          gatherPromise = (case fin of None \<Rightarrow> Pending | Some t \<Rightarrow> Resolved t ());
          minWait = Resolved 7000 ()
      in case promise_all gatherPromise minWait of
           Resolved t u \<Rightarrow> (hide_loader pg1, Resolved t ())
         | Rejected t err \<Rightarrow> (pg1, Rejected t err)
         | Pending \<Rightarrow> (pg1, Pending))"

text \<open>
  The \<open>DOMContentLoaded\<close> listener, \<open>initFlow().catch(..)\<close>: the page it leaves and
  the time at which the loader is hidden, if ever.
\<close>

definition on_DOMContentLoaded :: "env \<Rightarrow> page \<Rightarrow> page \<times> nat option" where
  "on_DOMContentLoaded e pg =
     (case initFlow e pg of
        (pg1, Resolved t u) \<Rightarrow> (pg1, Some t)
      | (pg1, Rejected t err) \<Rightarrow> (hide_loader pg1, Some t)
      | (pg1, Pending) \<Rightarrow> (pg1, None))"

definition ellipsis :: string where
  "ellipsis = [CHR 0xE2, CHR 0x80, CHR 0xA6]"

text \<open>
  The click listener of the refresh button (there is none without the button): the
  page it leaves and the time, after the click, at which it is done.
\<close>

definition on_refresh_click :: "env \<Rightarrow> page \<Rightarrow> page \<times> nat option" where
  "on_refresh_click e pg =
     (case REFRESH_BTN pg of
        None \<Rightarrow> (pg, Some 0)
      | Some btn \<Rightarrow>
          (let pg1 = pg\<lparr>REFRESH_BTN :=
                          Some \<lparr>btn_disabled = True, btn_textContent = ''Refreshing'' @ ellipsis\<rparr>\<rparr>;
               (pg2, fin) = gatherAll e pg1
           in case fin of
                None \<Rightarrow> (pg2, None)
              | Some t \<Rightarrow>
                  (pg2\<lparr>REFRESH_BTN :=
                         Some \<lparr>btn_disabled = False, btn_textContent = ''Refresh data''\<rparr>\<rparr>,
                   Some t)))"


section \<open>Observations and sample environments\<close>

text \<open>
  The rows of a card, and the card that \<open>gatherAll\<close> appends for a probe whose
  promise settles: the probe's own, or the error group.
\<close>

definition rows :: "card \<Rightarrow> kv list" where
  "rows c = (case body c of Rows el \<Rightarrow> el | Para s \<Rightarrow> [])"

definition group_keys :: "card \<Rightarrow> string \<times> string list" where
  "group_keys c = (title c, map key (rows c))"

definition placed :: "env \<Rightarrow> probe \<Rightarrow> card" where
  "placed e p =
     (case p e of
        Resolved d c \<Rightarrow> c
      | Rejected d err \<Rightarrow> mkCard ''error'' (Para ''unknown'')
      | Pending \<Rightarrow> mkCard ''error'' (Para ''unknown''))"

text \<open>An environment in which every queried API is absent.\<close>

definition navigator_absent :: navigator where
  "navigator_absent =
     \<lparr>nav_userAgent = JUndefined, nav_userAgentData = None, nav_platform = JUndefined,
      nav_language = JUndefined, nav_languages = None, nav_cookieEnabled = JUndefined,
      nav_doNotTrack = JUndefined, nav_vendor = JUndefined,
      nav_hardwareConcurrency = JUndefined, nav_deviceMemory = JUndefined,
      nav_maxTouchPoints = JUndefined, nav_getBattery = None, nav_connection = None,
      nav_mozConnection = None, nav_webkitConnection = None, nav_onLine = JUndefined,
      nav_has_geolocation = False, nav_getCurrentPosition = GeoThrows TypeError,
      nav_permissions = None, nav_mediaDevices = None, nav_serviceWorker = Inr JUndefined,
      nav_clipboard = None, nav_bluetooth = JUndefined, nav_usb = JUndefined,
      nav_serial = JUndefined, nav_hid = JUndefined, nav_getGamepads = JUndefined\<rparr>"

definition window_absent :: window where
  "window_absent =
     \<lparr>win_screen = None, win_devicePixelRatio = JUndefined, win_innerWidth = JUndefined,
      win_innerHeight = JUndefined, win_Accelerometer = JUndefined, win_AudioContext = None,
      win_webkitAudioContext = None, win_localStorage = Inl ReferenceError,
      win_indexedDB = JUndefined, win_showOpenFilePicker = JUndefined\<rparr>"

definition env_absent :: env where
  "env_absent =
     \<lparr>navigator = navigator_absent, window = window_absent, performance = None,
      DeviceMotionEvent = None, canvas_webgl = Inr None, canvas_experimental_webgl = Inr None,
      canvas_2d_dataURL = Inl TypeError\<rparr>"

text \<open>
  A desktop browser: geolocation with the permission denied, two media devices, a
  battery, a screen, all answering after a few milliseconds.
\<close>

definition sample_query :: "string \<Rightarrow> jsval call" where
  "sample_query name =
     (if name = ''geolocation'' then Returns (Resolved 3 (JStr ''denied''))
      else if name = ''push'' then Throws TypeError
      else Returns (Resolved 2 (JStr ''prompt'')))"

definition navigator_sample :: navigator where
  "navigator_sample =
     \<lparr>nav_userAgent = JStr ''Mozilla/5.0'', nav_userAgentData = None,
      nav_platform = JStr ''Linux x86_64'', nav_language = JStr ''en-US'',
      nav_languages = Some [''en-US'', ''en''], nav_cookieEnabled = JBool False,
      nav_doNotTrack = JNull, nav_vendor = JStr [],
      nav_hardwareConcurrency = JNum (Finite False 8 1), nav_deviceMemory = JUndefined,
      nav_maxTouchPoints = JNum (Finite False 0 0),
      nav_getBattery =
        Some (Returns (Resolved 5
          \<lparr>bat_charging = JBool True, bat_level = JNum (Finite False 5 0),
           bat_chargingTime = JNum (Finite False 0 0),
           bat_dischargingTime = JNum (Infinity False)\<rparr>)),
      nav_connection = None, nav_mozConnection = None, nav_webkitConnection = None,
      nav_onLine = JBool False, nav_has_geolocation = True,
      nav_getCurrentPosition = GeoSilent,
      nav_permissions = Some \<lparr>perm_query = Some sample_query\<rparr>,
      nav_mediaDevices =
        Some \<lparr>md_enumerateDevices =
          Some (Returns (Resolved 4
            [\<lparr>dev_kind = AudioInput, dev_label = []\<rparr>,
             \<lparr>dev_kind = VideoInput, dev_label = []\<rparr>]))\<rparr>,
      nav_serviceWorker = Inr (JBool True), nav_clipboard = None, nav_bluetooth = JUndefined,
      nav_usb = JUndefined, nav_serial = JUndefined, nav_hid = JUndefined,
      nav_getGamepads = JBool True\<rparr>"

definition window_sample :: window where
  "window_sample =
     \<lparr>win_screen =
        Some \<lparr>scr_width = JNum (Finite False 192 4), scr_height = JNum (Finite False 108 4),
              scr_availWidth = JNum (Finite False 192 4),
              scr_availHeight = JNum (Finite False 104 4),
              scr_colorDepth = JNum (Finite False 24 2), scr_orientation = None\<rparr>,
      win_devicePixelRatio = JNum (Finite False 15 1),
      win_innerWidth = JNum (Finite False 128 4), win_innerHeight = JNum (Finite False 72 3),
      win_Accelerometer = JUndefined, win_AudioContext = None,
      win_webkitAudioContext = None, win_localStorage = Inr (JBool True),
      win_indexedDB = JBool True, win_showOpenFilePicker = JUndefined\<rparr>"

definition performance_sample :: performance where
  "performance_sample =
     \<lparr>perf_timeOrigin = JNum (Finite False 17 13), perf_timing = None,
      perf_nav = Inr None, perf_now = Inr (JNum (Finite False 1205 3))\<rparr>"

definition env_sample :: env where
  "env_sample =
     \<lparr>navigator = navigator_sample, window = window_sample,
      performance = Some performance_sample,
      DeviceMotionEvent = None, canvas_webgl = Inr None, canvas_experimental_webgl = Inr None,
      canvas_2d_dataURL = Inr ''data:image/png;base64,iVBORw0KGgo=''\<rparr>"

definition page_initial :: page where
  "page_initial =
     \<lparr>CARDS_ROOT = Some [], loader = Some Shown,
      REFRESH_BTN = Some \<lparr>btn_disabled = False, btn_textContent = ''Refresh data''\<rparr>\<rparr>"


text \<open>Variants: an API that is there and throws, or whose promise never settles.\<close>

definition env_media_throws :: env where
  "env_media_throws =
     env_absent\<lparr>navigator := navigator_absent
       \<lparr>nav_mediaDevices := Some \<lparr>md_enumerateDevices = Some (Throws DOMException)\<rparr>\<rparr>\<rparr>"

definition env_media_pending :: env where
  "env_media_pending =
     env_absent\<lparr>navigator := navigator_absent
       \<lparr>nav_mediaDevices := Some \<lparr>md_enumerateDevices = Some (Returns Pending)\<rparr>\<rparr>\<rparr>"

definition env_battery_pending :: env where
  "env_battery_pending =
     env_absent\<lparr>navigator := navigator_absent\<lparr>nav_getBattery := Some (Returns Pending)\<rparr>\<rparr>"

definition env_permissions_pending :: env where
  "env_permissions_pending =
     env_absent\<lparr>navigator := navigator_absent
       \<lparr>nav_permissions := Some \<lparr>perm_query = Some (\<lambda>name. Returns Pending)\<rparr>\<rparr>\<rparr>"

text \<open>The sample browser with the permission granted and a position fix that never comes.\<close>

definition env_geo_silent :: env where
  "env_geo_silent =
     env_sample\<lparr>navigator := navigator_sample
       \<lparr>nav_permissions :=
          Some \<lparr>perm_query = Some (\<lambda>name. Returns (Resolved 3 (JStr ''granted'')))\<rparr>\<rparr>\<rparr>"

text \<open>The sample browser with a battery status that takes ten seconds.\<close>

definition env_slow :: env where
  "env_slow =
     env_sample\<lparr>navigator := navigator_sample
       \<lparr>nav_getBattery :=
          Some (Returns (Resolved 10000
            \<lparr>bat_charging = JBool True, bat_level = JNum (Finite False 5 0),
             bat_chargingTime = JNum (Finite False 0 0),
             bat_dischargingTime = JNum (Infinity False)\<rparr>))\<rparr>\<rparr>"

text \<open>
  Two promises that settle the same way (resolve with the same value, reject, or
  never settle), at whatever time; two calls with such promises, a call that throws
  counting as a rejection.
\<close>

fun same_outcome :: "'a settle \<Rightarrow> 'a settle \<Rightarrow> bool" where
  "same_outcome Pending Pending = True"
| "same_outcome (Resolved t x) (Resolved u y) = (x = y)"
| "same_outcome (Rejected t err) (Rejected u err') = True"
| "same_outcome p q = False"

definition same_answer :: "'a call \<Rightarrow> 'a call \<Rightarrow> bool" where
  "same_answer c d = same_outcome (await_call c) (await_call d)"

text \<open>What decides the rows of \<open>gatherPerformance\<close>: which calls throw, which entries exist.\<close>

definition perf_shape :: "performance \<Rightarrow> bool \<times> bool \<times> bool \<times> bool" where
  "perf_shape p = (isl (perf_nav p), perf_nav p = Inr None, perf_timing p = None, isl (perf_now p))"

text \<open>
  Two states of the environment that differ in timing at most: every property has
  the same value, every awaited promise settles the same way though maybe after
  another time, the position fix comes on the same side of the 8000 ms timer, and
  \<open>performance\<close> has the same calls throwing and the same entries, whatever its
  clock reads.
\<close>

definition same_state_up_to_timing :: "env \<Rightarrow> env \<Rightarrow> bool" where
  "same_state_up_to_timing e1 e2 \<longleftrightarrow>
     e2 = e1
       \<lparr>navigator := (navigator e1)
          \<lparr>nav_getBattery := nav_getBattery (navigator e2),
           nav_getCurrentPosition := nav_getCurrentPosition (navigator e2),
           nav_permissions := nav_permissions (navigator e2),
           nav_mediaDevices := nav_mediaDevices (navigator e2)\<rparr>,
        performance := performance e2\<rparr> \<and>
     rel_option same_answer (nav_getBattery (navigator e1)) (nav_getBattery (navigator e2)) \<and>
     same_outcome (wait_position (nav_getCurrentPosition (navigator e1)))
                  (wait_position (nav_getCurrentPosition (navigator e2))) \<and>
     rel_option (\<lambda>q1 q2. \<forall>name. same_answer (q1 name) (q2 name))
       (permissions_query (navigator e1)) (permissions_query (navigator e2)) \<and>
     rel_option same_answer (enumerateDevices (navigator e1)) (enumerateDevices (navigator e2)) \<and>
     map_option perf_shape (performance e1) = map_option perf_shape (performance e2)"

text \<open>Two promises of a card that settle alike, with cards of the same title and keys.\<close>

fun settle_alike :: "card settle \<Rightarrow> card settle \<Rightarrow> bool" where
  "settle_alike Pending Pending = True"
| "settle_alike (Resolved d c) (Resolved d' c') = (group_keys c = group_keys c')"
| "settle_alike (Rejected d err) (Rejected d' err') = True"
| "settle_alike p q = False"

text \<open>The sample browser, but with an empty array where \<open>cookieEnabled\<close> is read.\<close>

definition env_array :: env where
  "env_array = env_sample\<lparr>navigator := navigator_sample\<lparr>nav_cookieEnabled := JArr []\<rparr>\<rparr>"

text \<open>The sample browser with every method throwing or rejecting.\<close>

definition navigator_throws :: navigator where
  "navigator_throws =
     navigator_sample
       \<lparr>nav_getBattery := Some (Throws DOMException),
        nav_getCurrentPosition := GeoThrows TypeError,
        nav_permissions := Some \<lparr>perm_query = Some (\<lambda>name. Throws TypeError)\<rparr>,
        nav_mediaDevices :=
          Some \<lparr>md_enumerateDevices = Some (Returns (Rejected 6 DOMException))\<rparr>\<rparr>"

definition env_throws :: env where
  "env_throws =
     \<lparr>navigator = navigator_throws,
      window = window_sample
        \<lparr>win_AudioContext := Some \<lparr>actor_construct = Inl DOMException\<rparr>,
         win_localStorage := Inl DOMException\<rparr>,
      performance =
        Some \<lparr>perf_timeOrigin = JUndefined, perf_timing = None, perf_nav = Inl TypeError,
              perf_now = Inl TypeError\<rparr>,
      DeviceMotionEvent = None, canvas_webgl = Inl DOMException,
      canvas_experimental_webgl = Inl DOMException, canvas_2d_dataURL = Inl TypeError\<rparr>"

text \<open>The sample browser with the permission granted and a fix without altitude.\<close>

definition env_geo_fix :: env where
  "env_geo_fix =
     env_sample\<lparr>navigator := navigator_sample
       \<lparr>nav_permissions :=
          Some \<lparr>perm_query = Some (\<lambda>name. Returns (Resolved 3 (JStr ''granted'')))\<rparr>,
        nav_getCurrentPosition :=
          GeoSuccess 1200
            \<lparr>pos_latitude = JNum (Finite False 525 2), pos_longitude = JNum (Finite False 134 2),
             pos_accuracy = JNum (Finite False 25 2), pos_altitude = JNull\<rparr>\<rparr>\<rparr>"

text \<open>The sample browser in a sandboxed frame: the getter of \<open>serviceWorker\<close> throws.\<close>

definition env_sandboxed :: env where
  "env_sandboxed =
     env_sample\<lparr>navigator := navigator_sample\<lparr>nav_serviceWorker := Inl DOMException\<rparr>\<rparr>"

text \<open>The clock of \<open>performance\<close> a moment later.\<close>

definition performance_later :: performance where
  "performance_later = performance_sample\<lparr>perf_now := Inr (JNum (Finite False 98765 4))\<rparr>"

text \<open>
  The browser of \<open>env_geo_fix\<close> with the same fix arriving after nine seconds, and
  the sample browser with a slower battery, a slower device enumeration and a
  later clock.
\<close>

definition env_geo_late :: env where
  "env_geo_late =
     env_geo_fix\<lparr>navigator := (navigator env_geo_fix)
       \<lparr>nav_getCurrentPosition :=
          GeoSuccess 9000
            \<lparr>pos_latitude = JNum (Finite False 525 2), pos_longitude = JNum (Finite False 134 2),
             pos_accuracy = JNum (Finite False 25 2), pos_altitude = JNull\<rparr>\<rparr>\<rparr>"

definition env_sample_slower :: env where
  "env_sample_slower =
     env_sample\<lparr>navigator := navigator_sample
       \<lparr>nav_getBattery :=
          Some (Returns (Resolved 250
            \<lparr>bat_charging = JBool True, bat_level = JNum (Finite False 5 0),
             bat_chargingTime = JNum (Finite False 0 0),
             bat_dischargingTime = JNum (Infinity False)\<rparr>)),
        nav_mediaDevices :=
          Some \<lparr>md_enumerateDevices =
            Some (Returns (Resolved 40
              [\<lparr>dev_kind = AudioInput, dev_label = []\<rparr>,
               \<lparr>dev_kind = VideoInput, dev_label = []\<rparr>]))\<rparr>\<rparr>,
       performance := Some performance_later\<rparr>"

text \<open>Every promise that the environment hands to a probe settles.\<close>

definition all_settle :: "env \<Rightarrow> bool" where
  "all_settle e \<longleftrightarrow>
     (\<forall>c. nav_getBattery (navigator e) = Some c \<longrightarrow> await_call c \<noteq> Pending) \<and>
     (\<forall>q name. permissions_query (navigator e) = Some q \<longrightarrow> await_call (q name) \<noteq> Pending) \<and>
     (\<forall>f. enumerateDevices (navigator e) = Some f \<longrightarrow> await_call f \<noteq> Pending)"

section \<open>The formatter\<close>

lemma digits_nonempty: "digits n \<noteq> []"
  by (subst digits.simps) simp

lemma pos_toString_nonempty: "pos_toString s n \<noteq> []"
  by (simp add: pos_toString_def Let_def digits_nonempty)

lemma num_toString_nonempty: "num_toString x \<noteq> []"
  by (cases x) (simp_all add: pos_toString_nonempty)

lemma js_String_primitive_nonempty:
  "is_primitive v \<Longrightarrow> v \<noteq> JStr [] \<Longrightarrow> js_String v \<noteq> []"
  by (cases v) (simp_all add: num_toString_nonempty)

lemma mkKV_primitive_nonempty: "is_primitive v \<Longrightarrow> val (mkKV k v) \<noteq> []"
  by (simp add: mkKV_def js_String_primitive_nonempty)

lemma safe_primitive: "is_primitive v \<Longrightarrow> is_primitive (safe (Inr v) (JStr ''unknown''))"
  by (cases v) (simp_all add: nullish_def)

lemma unsupported_userAgentData:
  "nav_userAgentData (navigator e) = None \<Longrightarrow>
   \<lparr>key = ''userAgentData'', val = ''unsupported''\<rparr> \<in> set (rows (placed e gatherBasic))"
  by (simp add: placed_def gatherBasic_def Let_def mkCard_def rows_def mkKV_def
      userAgentData_fn_def nullish_def)

lemma unsupported_webgl:
  "canvas_webgl e = Inr None \<Longrightarrow> canvas_experimental_webgl e = Inr None \<Longrightarrow>
   \<lparr>key = ''webgl'', val = ''unsupported''\<rparr> \<in> set (rows (placed e gatherHardware))"
  by (simp add: placed_def gatherHardware_def Let_def mkCard_def rows_def mkKV_def webgl_rows_def)

lemma unsupported_battery:
  "nav_getBattery (navigator e) = None \<Longrightarrow>
   \<lparr>key = ''battery'', val = ''unsupported''\<rparr> \<in> set (rows (placed e gatherBattery))"
  by (simp add: placed_def gatherBattery_def mkCard_def rows_def mkKV_def)

lemma unsupported_networkAPI:
  "navConn (navigator e) = None \<Longrightarrow>
   \<lparr>key = ''networkAPI'', val = ''unsupported''\<rparr> \<in> set (rows (placed e gatherNetwork))"
  by (simp add: placed_def gatherNetwork_def Let_def mkCard_def rows_def mkKV_def)

lemma unsupported_geolocation:
  "\<not> nav_has_geolocation (navigator e) \<Longrightarrow>
   \<lparr>key = ''geolocation'', val = ''unsupported''\<rparr> \<in> set (rows (placed e gatherGeo))"
  by (simp add: placed_def gatherGeo_def gatherGeo_run_def Let_def mkCard_def rows_def mkKV_def)

lemma unsupported_mediaDevices:
  "enumerateDevices (navigator e) = None \<Longrightarrow>
   \<lparr>key = ''mediaDevices'', val = ''unsupported''\<rparr> \<in> set (rows (placed e gatherMediaDevices))"
  by (simp add: placed_def gatherMediaDevices_def mkCard_def rows_def mkKV_def)

lemma unsupported_permissionsAPI:
  "permissions_query (navigator e) = None \<Longrightarrow>
   \<lparr>key = ''permissionsAPI'', val = ''unsupported''\<rparr> \<in> set (rows (placed e gatherPermissions))"
  by (simp add: placed_def gatherPermissions_def mkCard_def rows_def mkKV_def)

lemma unsupported_sensors:
  "DeviceMotionEvent e = None \<Longrightarrow> win_Accelerometer (window e) = JUndefined \<Longrightarrow>
   \<lparr>key = ''DeviceMotion API'', val = ''unsupported''\<rparr> \<in> set (rows (placed e gatherSensors)) \<and>
   \<lparr>key = ''GenericSensor'', val = ''unsupported''\<rparr> \<in> set (rows (placed e gatherSensors))"
  by (simp add: placed_def gatherSensors_def mkCard_def rows_def mkKV_def)

lemma unsupported_audioContext:
  "AudioCtx (window e) = None \<Longrightarrow>
   \<lparr>key = ''audioContext'', val = ''unsupported''\<rparr>
     \<in> set (rows (placed e gatherCanvasAudioFingerprintingProbe))"
  by (simp add: placed_def gatherCanvasAudioFingerprintingProbe_def mkCard_def rows_def mkKV_def
      audio_row_def)

lemma caught_webgl:
  "canvas_webgl e = Inl err \<Longrightarrow>
   \<lparr>key = ''webgl'', val = ''unknown''\<rparr> \<in> set (rows (placed e gatherHardware))"
  by (simp add: placed_def gatherHardware_def Let_def mkCard_def rows_def mkKV_def webgl_rows_def)

lemma caught_battery:
  "nav_getBattery (navigator e) = Some c \<Longrightarrow> await_call c = Rejected t err \<Longrightarrow>
   \<lparr>key = ''battery'', val = ''unknown''\<rparr> \<in> set (rows (placed e gatherBattery))"
  by (simp add: placed_def gatherBattery_def mkCard_def rows_def mkKV_def)

lemma caught_mediaDevices:
  "enumerateDevices (navigator e) = Some f \<Longrightarrow> await_call f = Rejected t err \<Longrightarrow>
   \<lparr>key = ''mediaDevices'', val = ''unknown''\<rparr> \<in> set (rows (placed e gatherMediaDevices))"
  by (simp add: placed_def gatherMediaDevices_def mkCard_def rows_def mkKV_def)

lemma caught_performance:
  "performance e = None \<or> (\<exists>p err. performance e = Some p \<and> perf_now p = Inl err) \<Longrightarrow>
   \<lparr>key = ''performance'', val = ''unknown''\<rparr> \<in> set (rows (placed e gatherPerformance))"
  by (auto simp: placed_def gatherPerformance_def mkCard_def rows_def mkKV_def
      performance_rows_def Let_def split: sum.splits)

lemma caught_coords:
  "nav_has_geolocation (navigator e) \<Longrightarrow> geo_permState (navigator e) = Some (t, st) \<Longrightarrow>
   st = JStr ''granted'' \<or> st = JStr ''prompt'' \<Longrightarrow>
   wait_position (nav_getCurrentPosition (navigator e)) = Rejected u err \<Longrightarrow>
   \<lparr>key = ''coords'', val = ''unknown or blocked''\<rparr> \<in> set (rows (placed e gatherGeo))"
  by (auto simp: placed_def gatherGeo_def gatherGeo_run_def Let_def mkCard_def rows_def mkKV_def)

lemma null_altitude:
  "nav_has_geolocation (navigator e) \<Longrightarrow> geo_permState (navigator e) = Some (t, st) \<Longrightarrow>
   st = JStr ''granted'' \<or> st = JStr ''prompt'' \<Longrightarrow>
   wait_position (nav_getCurrentPosition (navigator e)) = Resolved u pos \<Longrightarrow>
   pos_altitude pos = JNull \<Longrightarrow>
   \<lparr>key = ''altitude'', val = ''null''\<rparr> \<in> set (rows (placed e gatherGeo))"
  by (auto simp: placed_def gatherGeo_def gatherGeo_run_def Let_def mkCard_def rows_def mkKV_def
      nullish_def)

lemma caught_canvasProbe:
  "canvas_2d_dataURL e = Inl err \<Longrightarrow>
   \<lparr>key = ''canvasProbe'', val = ''error''\<rparr>
     \<in> set (rows (placed e gatherCanvasAudioFingerprintingProbe))"
  by (simp add: placed_def gatherCanvasAudioFingerprintingProbe_def mkCard_def rows_def mkKV_def
      canvas_row_def)

lemma caught_audioContext:
  "AudioCtx (window e) = Some ctor \<Longrightarrow> actor_construct ctor = Inl err \<Longrightarrow>
   \<lparr>key = ''audioContext'', val = ''error''\<rparr>
     \<in> set (rows (placed e gatherCanvasAudioFingerprintingProbe))"
  by (simp add: placed_def gatherCanvasAudioFingerprintingProbe_def mkCard_def rows_def mkKV_def
      audio_row_def)

lemma query_each_keeps:
  "query_each query ns el t = Some (el', t') \<Longrightarrow> r \<in> set el \<Longrightarrow> r \<in> set el'"
  by (induction ns arbitrary: el t) (auto split: settle.splits)

lemma query_each_caught:
  "query_each query ns el t = Some (el', t') \<Longrightarrow> name \<in> set ns \<Longrightarrow>
   await_call (query name) = Rejected d err \<Longrightarrow>
   \<lparr>key = name, val = ''unknown''\<rparr> \<in> set el'"
proof (induction ns arbitrary: el t)
  case Nil
  then show ?case by simp
next
  case (Cons n ns)
  show ?case
  proof (cases "n = name")
    case True
    have "query_each query ns (el @ [mkKV name (JStr ''unknown'')]) (t + d) = Some (el', t')"
      using Cons.prems(1,3) True by simp
    then show ?thesis
      by (rule query_each_keeps) (simp add: mkKV_def)
  next
    case False
    then have "name \<in> set ns" using Cons.prems(2) by simp
    then show ?thesis
      using Cons.IH Cons.prems(1,3) by (auto split: settle.splits)
  qed
qed

lemma caught_permission_name:
  assumes "permissions_query (navigator e) = Some query" and "name \<in> set names"
    and "await_call (query name) = Rejected d err" and "gatherPermissions e \<noteq> Pending"
  shows "\<lparr>key = name, val = ''unknown''\<rparr> \<in> set (rows (placed e gatherPermissions))"
proof -
  obtain el t where q: "query_each query names [] 0 = Some (el, t)"
    using assms(1,4) by (auto simp: gatherPermissions_def split: option.splits)
  have "\<lparr>key = name, val = ''unknown''\<rparr> \<in> set el"
    using q assms(2,3) by (rule query_each_caught)
  then show ?thesis
    using assms(1) q by (simp add: placed_def gatherPermissions_def mkCard_def rows_def)
qed

text \<open>
  C1, as stated: every displayed value is non-empty; a value that is null,
  undefined or the empty string, or that comes from a query that throws, is shown as
  \<open>unknown\<close>; every other value is shown as its string form, which is never
  empty. But the canvas probe, when its query throws, shows \<open>error\<close>; and the
  empty array is none of the three values and has the empty string as its string
  form.
\<close>

theorem display_value_counterexample:
  "canvas_2d_dataURL env_throws = Inl TypeError \<and>
   rows (placed env_throws gatherCanvasAudioFingerprintingProbe) ! 0 =
     \<lparr>key = ''canvasProbe'', val = ''error''\<rparr> \<and>
   JArr [] \<noteq> JUndefined \<and> JArr [] \<noteq> JNull \<and> JArr [] \<noteq> JStr [] \<and>
   val (mkKV ''cookieEnabled'' (JArr [])) = js_String (JArr []) \<and>
   val (mkKV ''cookieEnabled'' (JArr [])) = [] \<and>
   nav_cookieEnabled (navigator env_array) = JArr [] \<and>
   rows (placed env_array gatherBasic) ! 5 = \<lparr>key = ''cookieEnabled'', val = []\<rparr>"
  by (simp add: mkKV_def env_array_def env_throws_def placed_def gatherBasic_def
      gatherCanvasAudioFingerprintingProbe_def canvas_row_def Let_def mkCard_def rows_def)

text \<open>
  C1, amended: for a primitive value (undefined, null, a boolean, a number, a
  string), handed to \<open>mkKV\<close> directly or through \<open>safe\<close>, the displayed value
  is never empty; null, undefined and the empty string show \<open>unknown\<close>, every
  other primitive shows its string form. A query that throws inside \<open>safe\<close> shows
  \<open>unknown\<close>; one that throws or rejects inside a probe's own \<open>try\<close> shows what
  the \<open>catch\<close> there writes: \<open>unknown\<close> for \<open>webgl\<close>, \<open>battery\<close>,
  \<open>mediaDevices\<close>, a permission name and \<open>performance\<close>, \<open>unknown or blocked\<close>
  for \<open>coords\<close>, \<open>error\<close> for \<open>canvasProbe\<close> and \<open>audioContext\<close>. Each field
  behind a capability-absence check shows \<open>unsupported\<close> when the capability is
  absent. A null altitude shows \<open>null\<close>.
\<close>

theorem display_value_of_primitive:
  assumes "is_primitive v"
  shows
  "val (mkKV k v) \<noteq> [] \<and>
   val (mkKV k (safe (Inr v) (JStr ''unknown''))) \<noteq> [] \<and>
   (v = JUndefined \<or> v = JNull \<or> v = JStr [] \<longrightarrow> val (mkKV k v) = ''unknown'') \<and>
   (v \<noteq> JUndefined \<and> v \<noteq> JNull \<and> v \<noteq> JStr [] \<longrightarrow> val (mkKV k v) = js_String v) \<and>
   val (mkKV k (safe (Inl err) (JStr ''unknown''))) = ''unknown'' \<and>
   (nav_userAgentData (navigator e) = None \<longrightarrow>
         \<lparr>key = ''userAgentData'', val = ''unsupported''\<rparr> \<in> set (rows (placed e gatherBasic))) \<and>
   (canvas_webgl e = Inr None \<and> canvas_experimental_webgl e = Inr None \<longrightarrow>
         \<lparr>key = ''webgl'', val = ''unsupported''\<rparr> \<in> set (rows (placed e gatherHardware))) \<and>
   (nav_getBattery (navigator e) = None \<longrightarrow>
         \<lparr>key = ''battery'', val = ''unsupported''\<rparr> \<in> set (rows (placed e gatherBattery))) \<and>
   (navConn (navigator e) = None \<longrightarrow>
         \<lparr>key = ''networkAPI'', val = ''unsupported''\<rparr> \<in> set (rows (placed e gatherNetwork))) \<and>
   (\<not> nav_has_geolocation (navigator e) \<longrightarrow>
         \<lparr>key = ''geolocation'', val = ''unsupported''\<rparr> \<in> set (rows (placed e gatherGeo))) \<and>
   (enumerateDevices (navigator e) = None \<longrightarrow>
         \<lparr>key = ''mediaDevices'', val = ''unsupported''\<rparr>
           \<in> set (rows (placed e gatherMediaDevices))) \<and>
   (permissions_query (navigator e) = None \<longrightarrow>
         \<lparr>key = ''permissionsAPI'', val = ''unsupported''\<rparr>
           \<in> set (rows (placed e gatherPermissions))) \<and>
   (DeviceMotionEvent e = None \<and> win_Accelerometer (window e) = JUndefined \<longrightarrow>
         \<lparr>key = ''DeviceMotion API'', val = ''unsupported''\<rparr> \<in> set (rows (placed e gatherSensors)) \<and>
         \<lparr>key = ''GenericSensor'', val = ''unsupported''\<rparr> \<in> set (rows (placed e gatherSensors))) \<and>
   (AudioCtx (window e) = None \<longrightarrow>
         \<lparr>key = ''audioContext'', val = ''unsupported''\<rparr>
           \<in> set (rows (placed e gatherCanvasAudioFingerprintingProbe))) \<and>
   ((\<exists>err'. canvas_webgl e = Inl err') \<longrightarrow>
         \<lparr>key = ''webgl'', val = ''unknown''\<rparr> \<in> set (rows (placed e gatherHardware))) \<and>
   ((\<exists>c t err'. nav_getBattery (navigator e) = Some c \<and> await_call c = Rejected t err') \<longrightarrow>
         \<lparr>key = ''battery'', val = ''unknown''\<rparr> \<in> set (rows (placed e gatherBattery))) \<and>
   ((\<exists>g t err'. enumerateDevices (navigator e) = Some g \<and> await_call g = Rejected t err') \<longrightarrow>
         \<lparr>key = ''mediaDevices'', val = ''unknown''\<rparr>
           \<in> set (rows (placed e gatherMediaDevices))) \<and>
   ((\<exists>query t err'. permissions_query (navigator e) = Some query \<and> name \<in> set names \<and>
           await_call (query name) = Rejected t err' \<and> gatherPermissions e \<noteq> Pending) \<longrightarrow>
         \<lparr>key = name, val = ''unknown''\<rparr> \<in> set (rows (placed e gatherPermissions))) \<and>
   (performance e = None \<or> (\<exists>p err'. performance e = Some p \<and> perf_now p = Inl err') \<longrightarrow>
         \<lparr>key = ''performance'', val = ''unknown''\<rparr> \<in> set (rows (placed e gatherPerformance))) \<and>
   ((\<exists>t st u err'. nav_has_geolocation (navigator e) \<and>
           geo_permState (navigator e) = Some (t, st) \<and>
           (st = JStr ''granted'' \<or> st = JStr ''prompt'') \<and>
           wait_position (nav_getCurrentPosition (navigator e)) = Rejected u err') \<longrightarrow>
         \<lparr>key = ''coords'', val = ''unknown or blocked''\<rparr> \<in> set (rows (placed e gatherGeo))) \<and>
   ((\<exists>err'. canvas_2d_dataURL e = Inl err') \<longrightarrow>
         \<lparr>key = ''canvasProbe'', val = ''error''\<rparr>
           \<in> set (rows (placed e gatherCanvasAudioFingerprintingProbe))) \<and>
   ((\<exists>ctor err'. AudioCtx (window e) = Some ctor \<and> actor_construct ctor = Inl err') \<longrightarrow>
         \<lparr>key = ''audioContext'', val = ''error''\<rparr>
           \<in> set (rows (placed e gatherCanvasAudioFingerprintingProbe))) \<and>
   ((\<exists>t st u pos. nav_has_geolocation (navigator e) \<and>
           geo_permState (navigator e) = Some (t, st) \<and>
           (st = JStr ''granted'' \<or> st = JStr ''prompt'') \<and>
           wait_position (nav_getCurrentPosition (navigator e)) = Resolved u pos \<and>
           pos_altitude pos = JNull) \<longrightarrow>
         \<lparr>key = ''altitude'', val = ''null''\<rparr> \<in> set (rows (placed e gatherGeo)))"
proof -
  have a: "val (mkKV k v) \<noteq> []"
    using assms by (rule mkKV_primitive_nonempty)
  have b: "val (mkKV k (safe (Inr v) (JStr ''unknown''))) \<noteq> []"
    using assms by (intro mkKV_primitive_nonempty safe_primitive)
  have c: "v = JUndefined \<or> v = JNull \<or> v = JStr [] \<longrightarrow> val (mkKV k v) = ''unknown''"
    by (simp add: mkKV_def)
  have d: "v \<noteq> JUndefined \<and> v \<noteq> JNull \<and> v \<noteq> JStr [] \<longrightarrow> val (mkKV k v) = js_String v"
    by (simp add: mkKV_def)
  have f: "val (mkKV k (safe (Inl err) (JStr ''unknown''))) = ''unknown''"
    by (simp add: mkKV_def)
  have u1: "nav_userAgentData (navigator e) = None \<longrightarrow>
          \<lparr>key = ''userAgentData'', val = ''unsupported''\<rparr> \<in> set (rows (placed e gatherBasic))"
    using unsupported_userAgentData by blast
  have u2: "canvas_webgl e = Inr None \<and> canvas_experimental_webgl e = Inr None \<longrightarrow>
          \<lparr>key = ''webgl'', val = ''unsupported''\<rparr> \<in> set (rows (placed e gatherHardware))"
    using unsupported_webgl by blast
  have u3: "nav_getBattery (navigator e) = None \<longrightarrow>
          \<lparr>key = ''battery'', val = ''unsupported''\<rparr> \<in> set (rows (placed e gatherBattery))"
    using unsupported_battery by blast
  have u4: "navConn (navigator e) = None \<longrightarrow>
          \<lparr>key = ''networkAPI'', val = ''unsupported''\<rparr> \<in> set (rows (placed e gatherNetwork))"
    using unsupported_networkAPI by blast
  have u5: "\<not> nav_has_geolocation (navigator e) \<longrightarrow>
          \<lparr>key = ''geolocation'', val = ''unsupported''\<rparr> \<in> set (rows (placed e gatherGeo))"
    using unsupported_geolocation by blast
  have u6: "enumerateDevices (navigator e) = None \<longrightarrow>
          \<lparr>key = ''mediaDevices'', val = ''unsupported''\<rparr>
            \<in> set (rows (placed e gatherMediaDevices))"
    using unsupported_mediaDevices by blast
  have u7: "permissions_query (navigator e) = None \<longrightarrow>
          \<lparr>key = ''permissionsAPI'', val = ''unsupported''\<rparr>
            \<in> set (rows (placed e gatherPermissions))"
    using unsupported_permissionsAPI by blast
  have u8: "DeviceMotionEvent e = None \<and> win_Accelerometer (window e) = JUndefined \<longrightarrow>
          \<lparr>key = ''DeviceMotion API'', val = ''unsupported''\<rparr> \<in> set (rows (placed e gatherSensors)) \<and>
          \<lparr>key = ''GenericSensor'', val = ''unsupported''\<rparr> \<in> set (rows (placed e gatherSensors))"
    using unsupported_sensors by blast
  have u9: "AudioCtx (window e) = None \<longrightarrow>
          \<lparr>key = ''audioContext'', val = ''unsupported''\<rparr>
            \<in> set (rows (placed e gatherCanvasAudioFingerprintingProbe))"
    using unsupported_audioContext by blast
  have t1: "(\<exists>err'. canvas_webgl e = Inl err') \<longrightarrow>
          \<lparr>key = ''webgl'', val = ''unknown''\<rparr> \<in> set (rows (placed e gatherHardware))"
    using caught_webgl by blast
  have t2: "(\<exists>c t err'. nav_getBattery (navigator e) = Some c \<and> await_call c = Rejected t err') \<longrightarrow>
          \<lparr>key = ''battery'', val = ''unknown''\<rparr> \<in> set (rows (placed e gatherBattery))"
    using caught_battery by blast
  have t3: "(\<exists>g t err'. enumerateDevices (navigator e) = Some g \<and> await_call g = Rejected t err') \<longrightarrow>
          \<lparr>key = ''mediaDevices'', val = ''unknown''\<rparr>
            \<in> set (rows (placed e gatherMediaDevices))"
    using caught_mediaDevices by blast
  have t4: "(\<exists>query t err'. permissions_query (navigator e) = Some query \<and> name \<in> set names \<and>
            await_call (query name) = Rejected t err' \<and> gatherPermissions e \<noteq> Pending) \<longrightarrow>
          \<lparr>key = name, val = ''unknown''\<rparr> \<in> set (rows (placed e gatherPermissions))"
    using caught_permission_name by blast
  have t5: "performance e = None \<or> (\<exists>p err'. performance e = Some p \<and> perf_now p = Inl err') \<longrightarrow>
          \<lparr>key = ''performance'', val = ''unknown''\<rparr> \<in> set (rows (placed e gatherPerformance))"
    using caught_performance by blast
  have t6: "(\<exists>t st u err'. nav_has_geolocation (navigator e) \<and>
            geo_permState (navigator e) = Some (t, st) \<and>
            (st = JStr ''granted'' \<or> st = JStr ''prompt'') \<and>
            wait_position (nav_getCurrentPosition (navigator e)) = Rejected u err') \<longrightarrow>
          \<lparr>key = ''coords'', val = ''unknown or blocked''\<rparr> \<in> set (rows (placed e gatherGeo))"
    using caught_coords by blast
  have t7: "(\<exists>err'. canvas_2d_dataURL e = Inl err') \<longrightarrow>
          \<lparr>key = ''canvasProbe'', val = ''error''\<rparr>
            \<in> set (rows (placed e gatherCanvasAudioFingerprintingProbe))"
    using caught_canvasProbe by blast
  have t8: "(\<exists>ctor err'. AudioCtx (window e) = Some ctor \<and> actor_construct ctor = Inl err') \<longrightarrow>
          \<lparr>key = ''audioContext'', val = ''error''\<rparr>
            \<in> set (rows (placed e gatherCanvasAudioFingerprintingProbe))"
    using caught_audioContext by blast
  have n1: "(\<exists>t st u pos. nav_has_geolocation (navigator e) \<and>
            geo_permState (navigator e) = Some (t, st) \<and>
            (st = JStr ''granted'' \<or> st = JStr ''prompt'') \<and>
            wait_position (nav_getCurrentPosition (navigator e)) = Resolved u pos \<and>
            pos_altitude pos = JNull) \<longrightarrow>
          \<lparr>key = ''altitude'', val = ''null''\<rparr> \<in> set (rows (placed e gatherGeo))"
    using null_altitude by blast
  show ?thesis
    by (intro conjI a b c d f u1 u2 u3 u4 u5 u6 u7 u8 u9 t1 t2 t3 t4 t5 t6 t7 t8 n1)
qed

theorem display_value_of_primitive_witness:
  "is_primitive (JBool True) \<and> is_primitive JNull \<and>
   val (mkKV ''charging'' (JBool True)) = ''true'' \<and>
   val (mkKV ''doNotTrack'' JNull) = ''unknown'' \<and>
   \<lparr>key = ''userAgentData'', val = ''unsupported''\<rparr> \<in> set (rows (placed env_absent gatherBasic)) \<and>
   \<lparr>key = ''webgl'', val = ''unsupported''\<rparr> \<in> set (rows (placed env_absent gatherHardware)) \<and>
   \<lparr>key = ''battery'', val = ''unsupported''\<rparr> \<in> set (rows (placed env_absent gatherBattery)) \<and>
   \<lparr>key = ''networkAPI'', val = ''unsupported''\<rparr> \<in> set (rows (placed env_absent gatherNetwork)) \<and>
   \<lparr>key = ''geolocation'', val = ''unsupported''\<rparr> \<in> set (rows (placed env_absent gatherGeo)) \<and>
   \<lparr>key = ''mediaDevices'', val = ''unsupported''\<rparr>
     \<in> set (rows (placed env_absent gatherMediaDevices)) \<and>
   \<lparr>key = ''permissionsAPI'', val = ''unsupported''\<rparr>
     \<in> set (rows (placed env_absent gatherPermissions)) \<and>
   \<lparr>key = ''GenericSensor'', val = ''unsupported''\<rparr> \<in> set (rows (placed env_absent gatherSensors)) \<and>
   \<lparr>key = ''audioContext'', val = ''unsupported''\<rparr>
     \<in> set (rows (placed env_absent gatherCanvasAudioFingerprintingProbe)) \<and>
   \<lparr>key = ''performance'', val = ''unknown''\<rparr> \<in> set (rows (placed env_absent gatherPerformance)) \<and>
   \<lparr>key = ''webgl'', val = ''unknown''\<rparr> \<in> set (rows (placed env_throws gatherHardware)) \<and>
   \<lparr>key = ''battery'', val = ''unknown''\<rparr> \<in> set (rows (placed env_throws gatherBattery)) \<and>
   \<lparr>key = ''mediaDevices'', val = ''unknown''\<rparr>
     \<in> set (rows (placed env_throws gatherMediaDevices)) \<and>
   \<lparr>key = ''camera'', val = ''unknown''\<rparr> \<in> set (rows (placed env_throws gatherPermissions)) \<and>
   \<lparr>key = ''canvasProbe'', val = ''error''\<rparr>
     \<in> set (rows (placed env_throws gatherCanvasAudioFingerprintingProbe)) \<and>
   \<lparr>key = ''audioContext'', val = ''error''\<rparr>
     \<in> set (rows (placed env_throws gatherCanvasAudioFingerprintingProbe)) \<and>
   \<lparr>key = ''coords'', val = ''unknown or blocked''\<rparr> \<in> set (rows (placed env_geo_silent gatherGeo)) \<and>
   \<lparr>key = ''altitude'', val = ''null''\<rparr> \<in> set (rows (placed env_geo_fix gatherGeo))"
proof -
  have p1: "is_primitive (JBool True)" and p2: "is_primitive JNull"
    by simp_all
  have h: "nav_userAgentData (navigator env_absent) = None"
    "canvas_webgl env_absent = Inr None \<and> canvas_experimental_webgl env_absent = Inr None"
    "nav_getBattery (navigator env_absent) = None"
    "navConn (navigator env_absent) = None"
    "\<not> nav_has_geolocation (navigator env_absent)"
    "enumerateDevices (navigator env_absent) = None"
    "permissions_query (navigator env_absent) = None"
    "DeviceMotionEvent env_absent = None \<and> win_Accelerometer (window env_absent) = JUndefined"
    "AudioCtx (window env_absent) = None"
    "performance env_absent = None"
    by (simp_all add: env_absent_def navigator_absent_def window_absent_def navConn_def
        enumerateDevices_def permissions_query_def AudioCtx_def)
  have t: "\<exists>err'. canvas_webgl env_throws = Inl err'"
    "\<exists>c t err'. nav_getBattery (navigator env_throws) = Some c \<and> await_call c = Rejected t err'"
    "\<exists>g t err'. enumerateDevices (navigator env_throws) = Some g \<and>
       await_call g = Rejected t err'"
    "\<exists>query t err'. permissions_query (navigator env_throws) = Some query \<and>
       ''camera'' \<in> set names \<and> await_call (query ''camera'') = Rejected t err' \<and>
       gatherPermissions env_throws \<noteq> Pending"
    "\<exists>err'. canvas_2d_dataURL env_throws = Inl err'"
    "\<exists>ctor err'. AudioCtx (window env_throws) = Some ctor \<and> actor_construct ctor = Inl err'"
    by (simp_all add: env_throws_def navigator_throws_def window_sample_def
        enumerateDevices_def permissions_query_def AudioCtx_def names_def gatherPermissions_def)
  have g: "\<exists>t st u err'. nav_has_geolocation (navigator env_geo_silent) \<and>
        geo_permState (navigator env_geo_silent) = Some (t, st) \<and>
        (st = JStr ''granted'' \<or> st = JStr ''prompt'') \<and>
        wait_position (nav_getCurrentPosition (navigator env_geo_silent)) = Rejected u err'"
    by (simp add: env_geo_silent_def navigator_sample_def geo_permState_def)
  have n: "\<exists>t st u pos. nav_has_geolocation (navigator env_geo_fix) \<and>
        geo_permState (navigator env_geo_fix) = Some (t, st) \<and>
        (st = JStr ''granted'' \<or> st = JStr ''prompt'') \<and>
        wait_position (nav_getCurrentPosition (navigator env_geo_fix)) = Resolved u pos \<and>
        pos_altitude pos = JNull"
    by (simp add: env_geo_fix_def navigator_sample_def geo_permState_def)
  note a = display_value_of_primitive [OF p1, of "''charging''" TypeError env_absent "''camera''"]
  note b = display_value_of_primitive [OF p2, of "''doNotTrack''" TypeError env_throws "''camera''"]
  note c = display_value_of_primitive [OF p2, of "''doNotTrack''" TypeError env_geo_silent "''camera''"]
  note d = display_value_of_primitive [OF p2, of "''doNotTrack''" TypeError env_geo_fix "''camera''"]
  have v: "val (mkKV ''charging'' (JBool True)) = ''true''"
    "val (mkKV ''doNotTrack'' JNull) = ''unknown''"
    using a b by simp_all
  have ra: "\<lparr>key = ''userAgentData'', val = ''unsupported''\<rparr> \<in> set (rows (placed env_absent gatherBasic))"
    "\<lparr>key = ''webgl'', val = ''unsupported''\<rparr> \<in> set (rows (placed env_absent gatherHardware))"
    "\<lparr>key = ''battery'', val = ''unsupported''\<rparr> \<in> set (rows (placed env_absent gatherBattery))"
    "\<lparr>key = ''networkAPI'', val = ''unsupported''\<rparr> \<in> set (rows (placed env_absent gatherNetwork))"
    "\<lparr>key = ''geolocation'', val = ''unsupported''\<rparr> \<in> set (rows (placed env_absent gatherGeo))"
    "\<lparr>key = ''mediaDevices'', val = ''unsupported''\<rparr>
       \<in> set (rows (placed env_absent gatherMediaDevices))"
    "\<lparr>key = ''permissionsAPI'', val = ''unsupported''\<rparr>
       \<in> set (rows (placed env_absent gatherPermissions))"
    "\<lparr>key = ''GenericSensor'', val = ''unsupported''\<rparr> \<in> set (rows (placed env_absent gatherSensors))"
    "\<lparr>key = ''audioContext'', val = ''unsupported''\<rparr>
       \<in> set (rows (placed env_absent gatherCanvasAudioFingerprintingProbe))"
    "\<lparr>key = ''performance'', val = ''unknown''\<rparr> \<in> set (rows (placed env_absent gatherPerformance))"
    using h a by simp_all
  have rb: "\<lparr>key = ''webgl'', val = ''unknown''\<rparr> \<in> set (rows (placed env_throws gatherHardware))"
    "\<lparr>key = ''battery'', val = ''unknown''\<rparr> \<in> set (rows (placed env_throws gatherBattery))"
    "\<lparr>key = ''mediaDevices'', val = ''unknown''\<rparr>
       \<in> set (rows (placed env_throws gatherMediaDevices))"
    "\<lparr>key = ''camera'', val = ''unknown''\<rparr> \<in> set (rows (placed env_throws gatherPermissions))"
    "\<lparr>key = ''canvasProbe'', val = ''error''\<rparr>
       \<in> set (rows (placed env_throws gatherCanvasAudioFingerprintingProbe))"
    "\<lparr>key = ''audioContext'', val = ''error''\<rparr>
       \<in> set (rows (placed env_throws gatherCanvasAudioFingerprintingProbe))"
    using t b by simp_all
  have rc: "\<lparr>key = ''coords'', val = ''unknown or blocked''\<rparr>
       \<in> set (rows (placed env_geo_silent gatherGeo))"
    using g c by simp
  have rd: "\<lparr>key = ''altitude'', val = ''null''\<rparr> \<in> set (rows (placed env_geo_fix gatherGeo))"
    using n d by simp
  show ?thesis
    by (intro conjI p1 p2 v ra rb rc rd)
qed

text \<open>
  C9: \<open>mkKV\<close> replaces null, undefined and the empty string by \<open>unknown\<close>, and
  only those: every other value is shown as its string form, so \<open>false\<close> and
  \<open>0\<close> are shown as \<open>false\<close> and \<open>0\<close>, and so the rows
  \<open>cookieEnabled\<close> (the sixth of \<open>gatherBasic\<close>) and \<open>online\<close> (the first of
  \<open>gatherNetwork\<close>) show \<open>false\<close> when the flags are false.
\<close>

theorem mkKV_keeps_defined_falsy_values:
  "val (mkKV k JUndefined) = ''unknown'' \<and>
   val (mkKV k JNull) = ''unknown'' \<and>
   val (mkKV k (JStr [])) = ''unknown'' \<and>
   val (mkKV k (JBool False)) = ''false'' \<and>
   val (mkKV k (JNum (Finite neg 0 n))) = ''0'' \<and>
   (v \<noteq> JUndefined \<and> v \<noteq> JNull \<and> v \<noteq> JStr [] \<longrightarrow> val (mkKV k v) = js_String v) \<and>
   (nav_cookieEnabled (navigator e) = JBool False \<longrightarrow>
      rows (placed e gatherBasic) ! 5 = \<lparr>key = ''cookieEnabled'', val = ''false''\<rparr>) \<and>
   (nav_onLine (navigator e) = JBool False \<longrightarrow>
      rows (placed e gatherNetwork) ! 0 = \<lparr>key = ''online'', val = ''false''\<rparr>)"
  by (simp add: mkKV_def placed_def gatherBasic_def gatherNetwork_def Let_def mkCard_def rows_def)

theorem mkKV_keeps_defined_falsy_values_witness:
  "val (mkKV ''saveData'' JUndefined) = ''unknown'' \<and>
   val (mkKV ''saveData'' JNull) = ''unknown'' \<and>
   val (mkKV ''saveData'' (JStr [])) = ''unknown'' \<and>
   val (mkKV ''saveData'' (JBool False)) = ''false'' \<and>
   val (mkKV ''saveData'' (JNum (Finite False 0 0))) = ''0'' \<and>
   JNum NaN \<noteq> JUndefined \<and> JNum NaN \<noteq> JNull \<and> JNum NaN \<noteq> JStr [] \<and>
   val (mkKV ''saveData'' (JNum NaN)) = ''NaN'' \<and>
   nav_cookieEnabled (navigator env_sample) = JBool False \<and>
   rows (placed env_sample gatherBasic) ! 5 = \<lparr>key = ''cookieEnabled'', val = ''false''\<rparr> \<and>
   nav_onLine (navigator env_sample) = JBool False \<and>
   rows (placed env_sample gatherNetwork) ! 0 = \<lparr>key = ''online'', val = ''false''\<rparr>"
proof -
  have h: "nav_cookieEnabled (navigator env_sample) = JBool False"
    "nav_onLine (navigator env_sample) = JBool False"
    by (simp_all add: env_sample_def navigator_sample_def)
  show ?thesis
    using h mkKV_keeps_defined_falsy_values [of "''saveData''" False 0 "JNum NaN" env_sample]
    by simp
qed

section \<open>The media probe\<close>

text \<open>
  C6: when \<open>navigator.mediaDevices\<close> or its \<open>enumerateDevices\<close> is absent, the
  group of the media probe has exactly one row, \<open>mediaDevices\<close> with the value
  \<open>unsupported\<close>.
\<close>

theorem media_unsupported_single_row:
  assumes "nav_mediaDevices (navigator e) = None \<or>
           (\<exists>md. nav_mediaDevices (navigator e) = Some md \<and> md_enumerateDevices md = None)"
  shows "\<exists>c. gatherMediaDevices e = Resolved 0 c \<and>
             rows c = [\<lparr>key = ''mediaDevices'', val = ''unsupported''\<rparr>]"
  using assms
  by (auto simp: gatherMediaDevices_def enumerateDevices_def mkCard_def rows_def mkKV_def)

theorem media_unsupported_single_row_witness:
  "nav_mediaDevices (navigator env_absent) = None \<and>
   (\<exists>c. gatherMediaDevices env_absent = Resolved 0 c \<and>
        rows c = [\<lparr>key = ''mediaDevices'', val = ''unsupported''\<rparr>])"
proof -
  have h: "nav_mediaDevices (navigator env_absent) = None"
    by (simp add: env_absent_def navigator_absent_def)
  show ?thesis
    using h media_unsupported_single_row [of env_absent] by simp
qed

text \<open>
  C10: the title of the media probe's group is \<open>Media Devices\<close> when the
  enumeration capability is absent and \<open>Media & Devices\<close> when the enumeration is
  attempted, whether it succeeds or fails.
\<close>

theorem media_title_depends_on_capability:
  "(enumerateDevices (navigator e) = None \<longrightarrow>
      (\<exists>c. gatherMediaDevices e = Resolved 0 c \<and> title c = ''Media Devices'')) \<and>
   (\<forall>f t devices. enumerateDevices (navigator e) = Some f \<and> await_call f = Resolved t devices \<longrightarrow>
      (\<exists>c. gatherMediaDevices e = Resolved t c \<and> title c = ''Media & Devices'')) \<and>
   (\<forall>f t err. enumerateDevices (navigator e) = Some f \<and> await_call f = Rejected t err \<longrightarrow>
      (\<exists>c. gatherMediaDevices e = Resolved t c \<and> title c = ''Media & Devices''))"
  by (auto simp: gatherMediaDevices_def mkCard_def)

theorem media_title_depends_on_capability_witness:
  "enumerateDevices (navigator env_absent) = None \<and>
   (\<exists>c. gatherMediaDevices env_absent = Resolved 0 c \<and> title c = ''Media Devices'') \<and>
   (\<exists>f devices. enumerateDevices (navigator env_sample) = Some f \<and>
      await_call f = Resolved 4 devices) \<and>
   (\<exists>c. gatherMediaDevices env_sample = Resolved 4 c \<and> title c = ''Media & Devices'') \<and>
   (\<exists>f. enumerateDevices (navigator env_media_throws) = Some f \<and>
      await_call f = Rejected 0 DOMException) \<and>
   (\<exists>c. gatherMediaDevices env_media_throws = Resolved 0 c \<and> title c = ''Media & Devices'')"
proof -
  have a: "enumerateDevices (navigator env_absent) = None"
    by (simp add: env_absent_def navigator_absent_def enumerateDevices_def)
  have b: "enumerateDevices (navigator env_sample) =
             Some (Returns (Resolved 4
               [\<lparr>dev_kind = AudioInput, dev_label = []\<rparr>, \<lparr>dev_kind = VideoInput, dev_label = []\<rparr>])) \<and>
           await_call (Returns (Resolved 4
               [\<lparr>dev_kind = AudioInput, dev_label = []\<rparr>, \<lparr>dev_kind = VideoInput, dev_label = []\<rparr>])) =
             Resolved 4 [\<lparr>dev_kind = AudioInput, dev_label = []\<rparr>, \<lparr>dev_kind = VideoInput, dev_label = []\<rparr>]"
    by (simp add: env_sample_def navigator_sample_def enumerateDevices_def)
  have c: "enumerateDevices (navigator env_media_throws) = Some (Throws DOMException) \<and>
           await_call (Throws DOMException :: media_device list call) = Rejected 0 DOMException"
    by (simp add: env_media_throws_def enumerateDevices_def)
  show ?thesis
    using a b c media_title_depends_on_capability [of env_absent]
      media_title_depends_on_capability [of env_sample]
      media_title_depends_on_capability [of env_media_throws]
    by blast
qed


section \<open>The geolocation probe\<close>

text \<open>
  C4: when geolocation is supported and the permission query answers with a state
  other than \<open>granted\<close> and \<open>prompt\<close> (\<open>denied\<close>, say), the geolocation group is
  the row \<open>permission\<close> showing that state, as \<open>mkKV\<close> displays it, and the row
  \<open>coords\<close> with \<open>unknown (permission denied or prompt)\<close>, and
  \<open>getCurrentPosition\<close> is not called; it is called only when the state is
  \<open>granted\<close> or \<open>prompt\<close>.
\<close>

theorem geo_denied_no_position_request:
  assumes "nav_has_geolocation (navigator e)"
  shows "(\<forall>perms query t st.
            nav_permissions (navigator e) = Some perms \<and> perm_query perms = Some query \<and>
            query ''geolocation'' = Returns (Resolved t st) \<and>
            st \<noteq> JStr ''granted'' \<and> st \<noteq> JStr ''prompt'' \<longrightarrow>
            gatherGeo_run e =
              \<lparr>position_requested = False,
               geo_result = Resolved t
                 \<lparr>title = ''Geolocation'',
                  body = Rows
                    [\<lparr>key = ''permission'',
                      val = (if st = JUndefined \<or> st = JNull \<or> st = JStr [] then ''unknown''
                             else js_String st)\<rparr>,
                     \<lparr>key = ''coords'', val = ''unknown (permission denied or prompt)''\<rparr>]\<rparr>\<rparr>) \<and>
         (position_requested (gatherGeo_run e) \<longrightarrow>
            (\<exists>t. geo_permState (navigator e) = Some (t, JStr ''granted'') \<or>
                 geo_permState (navigator e) = Some (t, JStr ''prompt'')))"
  using assms
  by (auto simp: gatherGeo_run_def geo_permState_def Let_def mkCard_def mkKV_def
      split: option.splits settle.splits)

theorem geo_denied_no_position_request_witness:
  "nav_has_geolocation (navigator env_sample) \<and>
   nav_permissions (navigator env_sample) = Some \<lparr>perm_query = Some sample_query\<rparr> \<and>
   sample_query ''geolocation'' = Returns (Resolved 3 (JStr ''denied'')) \<and>
   gatherGeo_run env_sample =
     \<lparr>position_requested = False,
      geo_result = Resolved 3
        \<lparr>title = ''Geolocation'',
         body = Rows
           [\<lparr>key = ''permission'', val = ''denied''\<rparr>,
            \<lparr>key = ''coords'', val = ''unknown (permission denied or prompt)''\<rparr>]\<rparr>\<rparr> \<and>
   position_requested (gatherGeo_run env_geo_silent) \<and>
   geo_permState (navigator env_geo_silent) = Some (3, JStr ''granted'')"
proof -
  have g: "nav_has_geolocation (navigator env_sample)"
    by (simp add: env_sample_def navigator_sample_def)
  have q: "nav_permissions (navigator env_sample) = Some \<lparr>perm_query = Some sample_query\<rparr>"
    "perm_query \<lparr>perm_query = Some sample_query\<rparr> = Some sample_query"
    "sample_query ''geolocation'' = Returns (Resolved 3 (JStr ''denied''))"
    by (simp_all add: env_sample_def navigator_sample_def sample_query_def)
  have g': "nav_has_geolocation (navigator env_geo_silent)"
    by (simp add: env_geo_silent_def navigator_sample_def)
  have r: "position_requested (gatherGeo_run env_geo_silent)"
    by (simp add: gatherGeo_run_def geo_permState_def env_geo_silent_def navigator_sample_def)
  show ?thesis
    using g q r geo_denied_no_position_request [OF g] geo_denied_no_position_request [OF g']
    by (auto simp: geo_permState_def env_geo_silent_def navigator_sample_def)
qed


section \<open>Waiting for the environment\<close>

lemma wait_position_settles: "wait_position reply \<noteq> Pending"
  by (cases reply) simp_all

lemma wait_position_bound:
  "(wait_position reply = Resolved t pos \<longrightarrow> t < 8000) \<and>
   (wait_position reply = Rejected t err \<longrightarrow> t \<le> 8000)"
  by (cases reply) (auto split: if_splits)

lemma gatherBattery_pending_iff:
  "gatherBattery e = Pending \<longleftrightarrow>
   (\<exists>c. nav_getBattery (navigator e) = Some c \<and> await_call c = Pending)"
  by (auto simp: gatherBattery_def split: option.splits settle.splits)

lemma gatherMediaDevices_pending_iff:
  "gatherMediaDevices e = Pending \<longleftrightarrow>
   (\<exists>f. enumerateDevices (navigator e) = Some f \<and> await_call f = Pending)"
  by (auto simp: gatherMediaDevices_def split: option.splits settle.splits)

lemma query_each_pending_iff:
  "query_each query ns el t = None \<longleftrightarrow> (\<exists>name \<in> set ns. await_call (query name) = Pending)"
  by (induction ns arbitrary: el t) (auto split: settle.splits)

lemma gatherPermissions_pending_iff:
  "gatherPermissions e = Pending \<longleftrightarrow>
   (\<exists>query name. permissions_query (navigator e) = Some query \<and> name \<in> set names \<and>
      await_call (query name) = Pending)"
proof (cases "permissions_query (navigator e)")
  case None
  then show ?thesis by (simp add: gatherPermissions_def)
next
  case (Some query)
  have "gatherPermissions e = Pending \<longleftrightarrow> query_each query names [] 0 = None"
    using Some by (simp add: gatherPermissions_def split: option.splits)
  then show ?thesis
    using Some by (auto simp: query_each_pending_iff)
qed

lemma gatherGeo_pending_iff:
  "gatherGeo e = Pending \<longleftrightarrow>
   nav_has_geolocation (navigator e) \<and> geo_permState (navigator e) = None"
  by (auto simp: gatherGeo_def gatherGeo_run_def Let_def wait_position_settles
      split: option.splits settle.splits)

text \<open>
  C5, as stated: the waits for the battery status, for the permission queries and
  for the media-device enumeration end after a fixed timeout, so that no probe hangs.
  With a promise that never settles each of the three probes stays pending, and
  so does the whole run.
\<close>

theorem unbounded_waits_counterexample:
  "gatherBattery env_battery_pending = Pending \<and>
   gatherMediaDevices env_media_pending = Pending \<and>
   gatherPermissions env_permissions_pending = Pending \<and>
   snd (gatherAll env_battery_pending page_initial) = None"
  by (simp add: gatherBattery_def gatherMediaDevices_def gatherPermissions_def
      env_battery_pending_def env_media_pending_def env_permissions_pending_def
      env_absent_def navigator_absent_def window_absent_def enumerateDevices_def
      permissions_query_def names_def gatherAll_def page_initial_def probes_def
      gatherBasic_def gatherScreen_def gatherHardware_def Let_def)

text \<open>
  C5, amended: only the wait for the geolocation position fix is bounded. The
  promise around \<open>getCurrentPosition\<close> settles within 8000 ms whatever the API
  does, and when no callback came before, the row \<open>coords\<close> shows
  \<open>unknown or blocked\<close>. The probes for geolocation (its permission query),
  battery, media devices and permissions stay pending exactly when a promise they
  await never settles.
\<close>

theorem only_position_wait_is_bounded:
  "wait_position reply \<noteq> Pending \<and>
   (\<forall>t pos. wait_position reply = Resolved t pos \<longrightarrow> t < 8000) \<and>
   (\<forall>t err. wait_position reply = Rejected t err \<longrightarrow> t \<le> 8000) \<and>
   (\<forall>t st. nav_has_geolocation (navigator e) \<and> geo_permState (navigator e) = Some (t, st) \<and>
            (st = JStr ''granted'' \<or> st = JStr ''prompt'') \<and>
            (nav_getCurrentPosition (navigator e) = GeoSilent \<or>
             (\<exists>u pos. nav_getCurrentPosition (navigator e) = GeoSuccess u pos \<and> 8000 \<le> u) \<or>
             (\<exists>u err. nav_getCurrentPosition (navigator e) = GeoError u err \<and> 8000 \<le> u)) \<longrightarrow>
      gatherGeo e = Resolved (t + 8000)
        \<lparr>title = ''Geolocation'',
         body = Rows [\<lparr>key = ''permission'', val = js_String st\<rparr>,
                      \<lparr>key = ''coords'', val = ''unknown or blocked''\<rparr>]\<rparr>) \<and>
   (gatherGeo e = Pending \<longleftrightarrow>
      nav_has_geolocation (navigator e) \<and> geo_permState (navigator e) = None) \<and>
   (gatherBattery e = Pending \<longleftrightarrow>
      (\<exists>c. nav_getBattery (navigator e) = Some c \<and> await_call c = Pending)) \<and>
   (gatherMediaDevices e = Pending \<longleftrightarrow>
      (\<exists>f. enumerateDevices (navigator e) = Some f \<and> await_call f = Pending)) \<and>
   (gatherPermissions e = Pending \<longleftrightarrow>
      (\<exists>query name. permissions_query (navigator e) = Some query \<and> name \<in> set names \<and>
         await_call (query name) = Pending))"
proof -
  have geo: "\<forall>t st. nav_has_geolocation (navigator e) \<and> geo_permState (navigator e) = Some (t, st) \<and>
            (st = JStr ''granted'' \<or> st = JStr ''prompt'') \<and>
            (nav_getCurrentPosition (navigator e) = GeoSilent \<or>
             (\<exists>u pos. nav_getCurrentPosition (navigator e) = GeoSuccess u pos \<and> 8000 \<le> u) \<or>
             (\<exists>u err. nav_getCurrentPosition (navigator e) = GeoError u err \<and> 8000 \<le> u)) \<longrightarrow>
      gatherGeo e = Resolved (t + 8000)
        \<lparr>title = ''Geolocation'',
         body = Rows [\<lparr>key = ''permission'', val = js_String st\<rparr>,
                      \<lparr>key = ''coords'', val = ''unknown or blocked''\<rparr>]\<rparr>"
    by (auto simp: gatherGeo_def gatherGeo_run_def Let_def mkCard_def mkKV_def)
  have b1: "\<forall>t pos. wait_position reply = Resolved t pos \<longrightarrow> t < 8000"
    using wait_position_bound [of reply] by blast
  have b2: "\<forall>t err. wait_position reply = Rejected t err \<longrightarrow> t \<le> 8000"
    using wait_position_bound [of reply] by blast
  show ?thesis
    by (intro conjI wait_position_settles b1 b2 geo gatherGeo_pending_iff
        gatherBattery_pending_iff gatherMediaDevices_pending_iff gatherPermissions_pending_iff)
qed

theorem only_position_wait_is_bounded_witness:
  "wait_position GeoSilent = Rejected 8000 TimeoutError \<and>
   nav_has_geolocation (navigator env_geo_silent) \<and>
   geo_permState (navigator env_geo_silent) = Some (3, JStr ''granted'') \<and>
   nav_getCurrentPosition (navigator env_geo_silent) = GeoSilent \<and>
   gatherGeo env_geo_silent = Resolved 8003
     \<lparr>title = ''Geolocation'',
      body = Rows [\<lparr>key = ''permission'', val = ''granted''\<rparr>,
                   \<lparr>key = ''coords'', val = ''unknown or blocked''\<rparr>]\<rparr> \<and>
   nav_getBattery (navigator env_battery_pending) = Some (Returns Pending) \<and>
   gatherBattery env_battery_pending = Pending"
proof -
  have h: "nav_has_geolocation (navigator env_geo_silent)"
    "geo_permState (navigator env_geo_silent) = Some (3, JStr ''granted'')"
    "nav_getCurrentPosition (navigator env_geo_silent) = GeoSilent"
    by (simp_all add: env_geo_silent_def navigator_sample_def geo_permState_def)
  have b: "nav_getBattery (navigator env_battery_pending) = Some (Returns Pending)"
    "await_call (Returns Pending :: battery call) = Pending"
    by (simp_all add: env_battery_pending_def)
  have w: "wait_position GeoSilent = Rejected 8000 TimeoutError"
    by simp
  have g: "gatherGeo env_geo_silent = Resolved (3 + 8000)
     \<lparr>title = ''Geolocation'',
      body = Rows [\<lparr>key = ''permission'', val = js_String (JStr ''granted'')\<rparr>,
                   \<lparr>key = ''coords'', val = ''unknown or blocked''\<rparr>]\<rparr>"
    using h only_position_wait_is_bounded [of GeoSilent env_geo_silent] by blast
  have p: "gatherBattery env_battery_pending = Pending"
    using b only_position_wait_is_bounded [of GeoSilent env_battery_pending] by blast
  show ?thesis
    using h b(1) w g p by simp
qed


section \<open>The loader gate\<close>

lemma run_probes_cards:
  "fst (run_probes ps e root t) = root @ map (placed e) (takeWhile (\<lambda>p. p e \<noteq> Pending) ps)"
  by (induction ps arbitrary: root t) (auto simp: placed_def split: settle.splits)

lemma gatherAll_root:
  "CARDS_ROOT pg \<noteq> None \<Longrightarrow>
   CARDS_ROOT (fst (gatherAll e pg)) = Some (fst (run_probes probes e [] 0))"
  by (auto simp: gatherAll_def split: option.splits prod.splits)

lemma gatherAll_loader: "loader (fst (gatherAll e pg)) = loader pg"
  by (simp add: gatherAll_def split: option.splits prod.splits)

lemma gatherAll_REFRESH_BTN: "REFRESH_BTN (fst (gatherAll e pg)) = REFRESH_BTN pg"
  by (simp add: gatherAll_def split: option.splits prod.splits)

lemma gatherAll_time:
  "snd (gatherAll e pg) =
     (if CARDS_ROOT pg = None then Some 0 else snd (run_probes probes e [] 0))"
  by (simp add: gatherAll_def split: option.splits prod.splits)

lemma on_DOMContentLoaded_time:
  "snd (on_DOMContentLoaded e pg) =
     (case snd (gatherAll e pg) of None \<Rightarrow> None | Some t \<Rightarrow> Some (max t 7000))"
  by (simp add: on_DOMContentLoaded_def initFlow_def split: option.splits prod.splits)

lemma on_DOMContentLoaded_loader:
  "loader (fst (on_DOMContentLoaded e pg)) =
     (if snd (gatherAll e pg) = None then loader pg else map_option (\<lambda>d. Hidden) (loader pg))"
  using gatherAll_loader [of e pg]
  by (auto simp: on_DOMContentLoaded_def initFlow_def hide_loader_def
      split: option.splits prod.splits)

lemma on_refresh_click_time:
  "REFRESH_BTN pg \<noteq> None \<Longrightarrow> snd (on_refresh_click e pg) = snd (gatherAll e pg)"
proof -
  assume "REFRESH_BTN pg \<noteq> None"
  then obtain btn where b: "REFRESH_BTN pg = Some btn" by blast
  define pg1 where
    "pg1 = pg\<lparr>REFRESH_BTN := Some \<lparr>btn_disabled = True, btn_textContent = ''Refreshing'' @ ellipsis\<rparr>\<rparr>"
  have "snd (gatherAll e pg1) = snd (gatherAll e pg)"
    by (simp add: gatherAll_time pg1_def)
  moreover have "snd (on_refresh_click e pg) = snd (gatherAll e pg1)"
    using b by (simp add: on_refresh_click_def pg1_def split: option.splits prod.splits)
  ultimately show ?thesis by simp
qed

lemma on_refresh_click_loader: "loader (fst (on_refresh_click e pg)) = loader pg"
proof (cases "REFRESH_BTN pg")
  case None
  then show ?thesis by (simp add: on_refresh_click_def)
next
  case (Some btn)
  have "loader (fst (gatherAll e
          (pg\<lparr>REFRESH_BTN := Some \<lparr>btn_disabled = True, btn_textContent = ''Refreshing'' @ ellipsis\<rparr>\<rparr>))) =
        loader pg"
    by (simp add: gatherAll_loader)
  then show ?thesis
    using Some by (auto simp: on_refresh_click_def split: option.splits prod.splits)
qed



lemmas run_defs =
  gatherAll_time page_initial_def probes_def gatherBasic_def gatherScreen_def
  gatherHardware_def gatherBattery_def gatherNetwork_def gatherGeo_def gatherGeo_run_def
  geo_permState_def gatherMediaDevices_def enumerateDevices_def gatherPermissions_def
  permissions_query_def names_def gatherPerformance_def gatherSensors_def
  gatherCanvasAudioFingerprintingProbe_def gatherWebAPIs_def features_def Let_def

lemma gatherAll_env_sample_time: "snd (gatherAll env_sample page_initial) = Some 29"
  by (simp add: run_defs env_sample_def navigator_sample_def window_sample_def sample_query_def)

lemma gatherAll_env_slow_time: "snd (gatherAll env_slow page_initial) = Some 10024"
  by (simp add: run_defs env_slow_def env_sample_def navigator_sample_def window_sample_def
      sample_query_def)

lemma gatherAll_env_sandboxed_time: "snd (gatherAll env_sandboxed page_initial) = Some 29"
  by (simp add: run_defs env_sandboxed_def env_sample_def navigator_sample_def
      window_sample_def sample_query_def)

lemma gatherAll_cards:
  "CARDS_ROOT pg \<noteq> None \<Longrightarrow>
   CARDS_ROOT (fst (gatherAll e pg)) =
     Some (map (placed e) (takeWhile (\<lambda>p. p e \<noteq> Pending) probes))"
  using run_probes_cards [of probes e "[]" 0] by (simp add: gatherAll_root)

lemma gatherAll_with_button:
  "gatherAll e (pg\<lparr>REFRESH_BTN := b\<rparr>) =
     ((fst (gatherAll e pg))\<lparr>REFRESH_BTN := b\<rparr>, snd (gatherAll e pg))"
  by (simp add: gatherAll_def split: option.splits prod.splits)

lemma on_refresh_click_page:
  assumes "REFRESH_BTN pg \<noteq> None"
  shows "fst (on_refresh_click e pg) =
     (fst (gatherAll e pg))\<lparr>REFRESH_BTN :=
        Some (if snd (gatherAll e pg) = None
              then \<lparr>btn_disabled = True, btn_textContent = ''Refreshing'' @ ellipsis\<rparr>
              else \<lparr>btn_disabled = False, btn_textContent = ''Refresh data''\<rparr>)\<rparr>"
proof -
  obtain btn where b: "REFRESH_BTN pg = Some btn" using assms by blast
  show ?thesis
    by (cases "snd (gatherAll e pg)") (simp_all add: on_refresh_click_def b gatherAll_with_button)
qed

lemma on_DOMContentLoaded_page:
  "fst (on_DOMContentLoaded e pg) =
     (if snd (gatherAll e pg) = None then fst (gatherAll e pg)
      else hide_loader (fst (gatherAll e pg)))"
  by (cases "gatherAll e pg"; cases "snd (gatherAll e pg)")
     (simp_all add: on_DOMContentLoaded_def initFlow_def)

lemma hide_loader_cards: "CARDS_ROOT (hide_loader pg) = CARDS_ROOT pg"
  by (simp add: hide_loader_def)

lemma sample_titles:
  "map title (map (placed env_sample) (takeWhile (\<lambda>p. p env_sample \<noteq> Pending) probes)) =
     [''Browser & Locale'', ''Display & Viewport'', ''Hardware Hints'', ''Battery'',
      ''Network'', ''Geolocation'', ''Media & Devices'', ''Permissions'', ''Performance'',
      ''Sensors'', ''Canvas / Audio Probes'', ''Web APIs'']"
  by (simp add: run_defs placed_def mkCard_def env_sample_def navigator_sample_def
      window_sample_def sample_query_def)

lemma pending_titles:
  "map title (map (placed env_battery_pending)
       (takeWhile (\<lambda>p. p env_battery_pending \<noteq> Pending) probes)) =
     [''Browser & Locale'', ''error'', ''Hardware Hints'']"
  by (simp add: run_defs placed_def mkCard_def env_battery_pending_def env_absent_def
      navigator_absent_def window_absent_def)

text \<open>
  C3: on the initial load the loader is hidden when both the full run of
  \<open>gatherAll\<close> has finished and the 7000 ms of \<open>minWait\<close> have passed, that is
  at the later of the two and never before 7000 ms (never at all when the run never
  finishes); the page is then the one \<open>gatherAll\<close> left, with the loader hidden.
  A click on the refresh button runs \<open>gatherAll\<close> again: it is done when that run
  is, with no minimum wait and without touching the loader, and the page is the one
  \<open>gatherAll\<close> leaves, the old cards replaced by those of the new run, with the
  button enabled again once the run has finished and disabled until then.
\<close>

theorem reveal_needs_run_and_minimum_wait:
  "snd (on_DOMContentLoaded e pg) =
     (case snd (gatherAll e pg) of None \<Rightarrow> None | Some t \<Rightarrow> Some (max t 7000)) \<and>
   (\<forall>t. snd (on_DOMContentLoaded e pg) = Some t \<longrightarrow> 7000 \<le> t) \<and>
   loader (fst (on_DOMContentLoaded e pg)) =
     (if snd (gatherAll e pg) = None then loader pg else map_option (\<lambda>d. Hidden) (loader pg)) \<and>
   (REFRESH_BTN pg \<noteq> None \<longrightarrow> snd (on_refresh_click e pg) = snd (gatherAll e pg)) \<and>
   loader (fst (on_refresh_click e pg)) = loader pg \<and>
   fst (on_DOMContentLoaded e pg) =
     (if snd (gatherAll e pg) = None then fst (gatherAll e pg)
      else hide_loader (fst (gatherAll e pg))) \<and>
   (REFRESH_BTN pg \<noteq> None \<longrightarrow>
      fst (on_refresh_click e pg) =
        (fst (gatherAll e pg))\<lparr>REFRESH_BTN :=
           Some (if snd (gatherAll e pg) = None
                 then \<lparr>btn_disabled = True, btn_textContent = ''Refreshing'' @ ellipsis\<rparr>
                 else \<lparr>btn_disabled = False, btn_textContent = ''Refresh data''\<rparr>)\<rparr>) \<and>
   (REFRESH_BTN pg \<noteq> None \<and> CARDS_ROOT pg \<noteq> None \<longrightarrow>
      CARDS_ROOT (fst (on_refresh_click e pg)) =
        Some (map (placed e) (takeWhile (\<lambda>p. p e \<noteq> Pending) probes))) \<and>
   (CARDS_ROOT pg \<noteq> None \<longrightarrow>
      CARDS_ROOT (fst (on_DOMContentLoaded e pg)) =
        Some (map (placed e) (takeWhile (\<lambda>p. p e \<noteq> Pending) probes)))"
proof -
  have a: "snd (on_DOMContentLoaded e pg) =
     (case snd (gatherAll e pg) of None \<Rightarrow> None | Some t \<Rightarrow> Some (max t 7000))"
    by (rule on_DOMContentLoaded_time)
  have b: "\<forall>t. snd (on_DOMContentLoaded e pg) = Some t \<longrightarrow> 7000 \<le> t"
    by (auto simp: on_DOMContentLoaded_time split: option.splits)
  have c: "loader (fst (on_DOMContentLoaded e pg)) =
     (if snd (gatherAll e pg) = None then loader pg else map_option (\<lambda>d. Hidden) (loader pg))"
    by (rule on_DOMContentLoaded_loader)
  have d: "REFRESH_BTN pg \<noteq> None \<longrightarrow> snd (on_refresh_click e pg) = snd (gatherAll e pg)"
    using on_refresh_click_time [of pg e] by blast
  have f: "loader (fst (on_refresh_click e pg)) = loader pg"
    by (rule on_refresh_click_loader)
  have g: "fst (on_DOMContentLoaded e pg) =
     (if snd (gatherAll e pg) = None then fst (gatherAll e pg)
      else hide_loader (fst (gatherAll e pg)))"
    by (rule on_DOMContentLoaded_page)
  have h: "REFRESH_BTN pg \<noteq> None \<longrightarrow>
      fst (on_refresh_click e pg) =
        (fst (gatherAll e pg))\<lparr>REFRESH_BTN :=
           Some (if snd (gatherAll e pg) = None
                 then \<lparr>btn_disabled = True, btn_textContent = ''Refreshing'' @ ellipsis\<rparr>
                 else \<lparr>btn_disabled = False, btn_textContent = ''Refresh data''\<rparr>)\<rparr>"
    using on_refresh_click_page [of pg e] by blast
  have i: "REFRESH_BTN pg \<noteq> None \<and> CARDS_ROOT pg \<noteq> None \<longrightarrow>
      CARDS_ROOT (fst (on_refresh_click e pg)) =
        Some (map (placed e) (takeWhile (\<lambda>p. p e \<noteq> Pending) probes))"
    using on_refresh_click_page [of pg e] gatherAll_cards [of pg e] by auto
  have j: "CARDS_ROOT pg \<noteq> None \<longrightarrow>
      CARDS_ROOT (fst (on_DOMContentLoaded e pg)) =
        Some (map (placed e) (takeWhile (\<lambda>p. p e \<noteq> Pending) probes))"
    using gatherAll_cards [of pg e] by (simp add: on_DOMContentLoaded_page hide_loader_cards)
  show ?thesis
    by (intro conjI a b c d f g h i j)
qed

theorem reveal_needs_run_and_minimum_wait_witness:
  "snd (gatherAll env_sample page_initial) = Some 29 \<and>
   snd (on_DOMContentLoaded env_sample page_initial) = Some 7000 \<and>
   snd (gatherAll env_slow page_initial) = Some 10024 \<and>
   snd (on_DOMContentLoaded env_slow page_initial) = Some 10024 \<and>
   loader (fst (on_DOMContentLoaded env_slow page_initial)) = Some Hidden \<and>
   REFRESH_BTN page_initial \<noteq> None \<and>
   snd (on_refresh_click env_sample page_initial) = Some 29 \<and>
   loader (fst (on_refresh_click env_sample page_initial)) = Some Shown \<and>
   CARDS_ROOT page_initial = Some [] \<and>
   map_option (map title) (CARDS_ROOT (fst (on_refresh_click env_sample page_initial))) =
     Some [''Browser & Locale'', ''Display & Viewport'', ''Hardware Hints'', ''Battery'',
           ''Network'', ''Geolocation'', ''Media & Devices'', ''Permissions'', ''Performance'',
           ''Sensors'', ''Canvas / Audio Probes'', ''Web APIs''] \<and>
   REFRESH_BTN (fst (on_refresh_click env_sample page_initial)) =
     Some \<lparr>btn_disabled = False, btn_textContent = ''Refresh data''\<rparr> \<and>
   snd (on_refresh_click env_battery_pending page_initial) = None \<and>
   map_option (map title) (CARDS_ROOT (fst (on_refresh_click env_battery_pending page_initial))) =
     Some [''Browser & Locale'', ''error'', ''Hardware Hints''] \<and>
   REFRESH_BTN (fst (on_refresh_click env_battery_pending page_initial)) =
     Some \<lparr>btn_disabled = True, btn_textContent = ''Refreshing'' @ ellipsis\<rparr>"
proof -
  have b: "REFRESH_BTN page_initial \<noteq> None" "loader page_initial = Some Shown"
    "CARDS_ROOT page_initial = Some []"
    by (simp_all add: page_initial_def)
  have p: "snd (gatherAll env_battery_pending page_initial) = None"
    by (simp add: run_defs env_battery_pending_def env_absent_def navigator_absent_def
        window_absent_def)
  note s = reveal_needs_run_and_minimum_wait [of env_sample page_initial]
  note l = reveal_needs_run_and_minimum_wait [of env_slow page_initial]
  note q = reveal_needs_run_and_minimum_wait [of env_battery_pending page_initial]
  note s_time = s [THEN conjunct1]
  note s_click_time = s [THEN conjunct2, THEN conjunct2, THEN conjunct2, THEN conjunct1]
  note s_click_loader = s [THEN conjunct2, THEN conjunct2, THEN conjunct2, THEN conjunct2, THEN conjunct1]
  note s_click_page = s [THEN conjunct2, THEN conjunct2, THEN conjunct2, THEN conjunct2, THEN conjunct2, THEN conjunct2, THEN conjunct1]
  note s_click_cards = s [THEN conjunct2, THEN conjunct2, THEN conjunct2, THEN conjunct2, THEN conjunct2, THEN conjunct2, THEN conjunct2, THEN conjunct1]
  note l_time = l [THEN conjunct1]
  note l_loader = l [THEN conjunct2, THEN conjunct2, THEN conjunct1]
  note q_click_time = q [THEN conjunct2, THEN conjunct2, THEN conjunct2, THEN conjunct1]
  note q_click_page = q [THEN conjunct2, THEN conjunct2, THEN conjunct2, THEN conjunct2, THEN conjunct2, THEN conjunct2, THEN conjunct1]
  note q_click_cards = q [THEN conjunct2, THEN conjunct2, THEN conjunct2, THEN conjunct2, THEN conjunct2, THEN conjunct2, THEN conjunct2, THEN conjunct1]
  have t1: "snd (on_DOMContentLoaded env_sample page_initial) = Some 7000"
    "snd (on_refresh_click env_sample page_initial) = Some 29"
    "loader (fst (on_refresh_click env_sample page_initial)) = Some Shown"
    using b s_time s_click_time s_click_loader by (simp_all add: gatherAll_env_sample_time)
  have t2: "snd (on_DOMContentLoaded env_slow page_initial) = Some 10024"
    "loader (fst (on_DOMContentLoaded env_slow page_initial)) = Some Hidden"
    using b l_time l_loader by (simp_all add: gatherAll_env_slow_time)
  have t3: "map_option (map title) (CARDS_ROOT (fst (on_refresh_click env_sample page_initial))) =
     Some [''Browser & Locale'', ''Display & Viewport'', ''Hardware Hints'', ''Battery'',
           ''Network'', ''Geolocation'', ''Media & Devices'', ''Permissions'', ''Performance'',
           ''Sensors'', ''Canvas / Audio Probes'', ''Web APIs'']"
    using b s_click_cards sample_titles by simp
  have t4: "REFRESH_BTN (fst (on_refresh_click env_sample page_initial)) =
     Some \<lparr>btn_disabled = False, btn_textContent = ''Refresh data''\<rparr>"
    using b s_click_page by (simp add: gatherAll_env_sample_time)
  have t5: "snd (on_refresh_click env_battery_pending page_initial) = None"
    using b q_click_time p by simp
  have t6: "map_option (map title)
      (CARDS_ROOT (fst (on_refresh_click env_battery_pending page_initial))) =
     Some [''Browser & Locale'', ''error'', ''Hardware Hints'']"
    using b q_click_cards pending_titles by simp
  have t7: "REFRESH_BTN (fst (on_refresh_click env_battery_pending page_initial)) =
     Some \<lparr>btn_disabled = True, btn_textContent = ''Refreshing'' @ ellipsis\<rparr>"
    using b q_click_page p by simp
  show ?thesis
    by (intro conjI gatherAll_env_sample_time gatherAll_env_slow_time b(1) b(3)
        t1 t2 t3 t4 t5 t6 t7)
qed


section \<open>The orchestrator's run\<close>

lemma run_probes_finished_cards:
  "snd (run_probes ps e root t) \<noteq> None \<Longrightarrow>
   fst (run_probes ps e root t) = root @ map (placed e) ps"
  by (induction ps arbitrary: root t) (auto simp: placed_def split: settle.splits)

lemma run_probes_finished_settled:
  "snd (run_probes ps e root t) \<noteq> None \<Longrightarrow> \<forall>p \<in> set ps. p e \<noteq> Pending"
  by (induction ps arbitrary: root t) (auto split: settle.splits)

lemma run_probes_settled_finishes:
  "\<forall>p \<in> set ps. p e \<noteq> Pending \<Longrightarrow> snd (run_probes ps e root t) \<noteq> None"
  by (induction ps arbitrary: root t) (auto split: settle.splits)

lemma title_gatherBasic: "title (placed e gatherBasic) = ''Browser & Locale''"
  by (simp add: placed_def gatherBasic_def Let_def mkCard_def)

lemma title_gatherScreen:
  "title (placed e gatherScreen) =
     (if win_screen (window e) = None then ''error'' else ''Display & Viewport'')"
  by (simp add: placed_def gatherScreen_def Let_def mkCard_def split: option.splits)

lemma title_gatherHardware: "title (placed e gatherHardware) = ''Hardware Hints''"
  by (simp add: placed_def gatherHardware_def Let_def mkCard_def)

lemma title_gatherBattery:
  "gatherBattery e \<noteq> Pending \<Longrightarrow> title (placed e gatherBattery) = ''Battery''"
  by (auto simp: placed_def gatherBattery_def mkCard_def split: option.splits settle.splits)

lemma title_gatherNetwork: "title (placed e gatherNetwork) = ''Network''"
  by (simp add: placed_def gatherNetwork_def Let_def mkCard_def)

lemma title_gatherGeo:
  "gatherGeo e \<noteq> Pending \<Longrightarrow> title (placed e gatherGeo) = ''Geolocation''"
  by (auto simp: placed_def gatherGeo_def gatherGeo_run_def Let_def mkCard_def
      split: option.splits settle.splits if_splits)

lemma title_gatherMediaDevices:
  "gatherMediaDevices e \<noteq> Pending \<Longrightarrow>
   title (placed e gatherMediaDevices) =
     (if enumerateDevices (navigator e) = None then ''Media Devices'' else ''Media & Devices'')"
  by (auto simp: placed_def gatherMediaDevices_def mkCard_def split: option.splits settle.splits)

lemma title_gatherPermissions:
  "gatherPermissions e \<noteq> Pending \<Longrightarrow> title (placed e gatherPermissions) = ''Permissions''"
  by (auto simp: placed_def gatherPermissions_def mkCard_def split: option.splits)

lemma title_gatherPerformance: "title (placed e gatherPerformance) = ''Performance''"
  by (simp add: placed_def gatherPerformance_def mkCard_def)

lemma title_gatherSensors: "title (placed e gatherSensors) = ''Sensors''"
  by (simp add: placed_def gatherSensors_def mkCard_def)

lemma title_gatherCanvasAudio:
  "title (placed e gatherCanvasAudioFingerprintingProbe) = ''Canvas / Audio Probes''"
  by (simp add: placed_def gatherCanvasAudioFingerprintingProbe_def mkCard_def)

lemma title_gatherWebAPIs:
  "title (placed e gatherWebAPIs) =
     (if isl (nav_serviceWorker (navigator e)) then ''error'' else ''Web APIs'')"
  by (simp add: placed_def gatherWebAPIs_def features_def Let_def mkCard_def split: sum.splits)

text \<open>
  C7: on every run the groups in \<open>#cards\<close> stand in the declared order of the
  probes, each probe's card (or the error group put in its place) at the probe's
  position, whatever the latencies are; a finished run has all twelve, with these
  titles (\<open>error\<close> where the probe rejected: the second without a screen, the
  twelfth when the getter of \<open>serviceWorker\<close> throws), and a run that never finishes has those of the probes before the first
  one whose promise never settles.
\<close>

theorem groups_in_declared_order:
  assumes "CARDS_ROOT pg \<noteq> None"
  shows "CARDS_ROOT (fst (gatherAll e pg)) =
           Some (map (placed e) (takeWhile (\<lambda>p. p e \<noteq> Pending) probes)) \<and>
         (snd (gatherAll e pg) \<noteq> None \<longrightarrow>
            CARDS_ROOT (fst (gatherAll e pg)) = Some (map (placed e) probes) \<and>
            map title (map (placed e) probes) =
              [''Browser & Locale'',
               if win_screen (window e) = None then ''error'' else ''Display & Viewport'',
               ''Hardware Hints'',
               ''Battery'',
               ''Network'',
               ''Geolocation'',
               if enumerateDevices (navigator e) = None then ''Media Devices''
               else ''Media & Devices'',
               ''Permissions'',
               ''Performance'',
               ''Sensors'',
               ''Canvas / Audio Probes'',
               if isl (nav_serviceWorker (navigator e)) then ''error'' else ''Web APIs''])"
proof -
  have root: "CARDS_ROOT (fst (gatherAll e pg)) = Some (fst (run_probes probes e [] 0))"
    using assms by (rule gatherAll_root)
  have pre: "CARDS_ROOT (fst (gatherAll e pg)) =
      Some (map (placed e) (takeWhile (\<lambda>p. p e \<noteq> Pending) probes))"
    using run_probes_cards [of probes e "[]" 0] root by simp
  have fin: "CARDS_ROOT (fst (gatherAll e pg)) = Some (map (placed e) probes) \<and>
      map title (map (placed e) probes) =
              [''Browser & Locale'',
               if win_screen (window e) = None then ''error'' else ''Display & Viewport'',
               ''Hardware Hints'',
               ''Battery'',
               ''Network'',
               ''Geolocation'',
               if enumerateDevices (navigator e) = None then ''Media Devices''
               else ''Media & Devices'',
               ''Permissions'',
               ''Performance'',
               ''Sensors'',
               ''Canvas / Audio Probes'',
               if isl (nav_serviceWorker (navigator e)) then ''error'' else ''Web APIs'']"
    if finished: "snd (gatherAll e pg) \<noteq> None"
  proof -
    have d: "snd (run_probes probes e [] 0) \<noteq> None"
      using finished assms by (simp add: gatherAll_time)
    have cards: "fst (run_probes probes e [] 0) = map (placed e) probes"
      using run_probes_finished_cards [OF d] by simp
    have settled: "\<forall>p \<in> set probes. p e \<noteq> Pending"
      using d by (rule run_probes_finished_settled)
    have s: "gatherBattery e \<noteq> Pending" "gatherGeo e \<noteq> Pending"
      "gatherMediaDevices e \<noteq> Pending" "gatherPermissions e \<noteq> Pending"
      using settled by (simp_all add: probes_def)
    have titles: "map title (map (placed e) probes) =
              [''Browser & Locale'',
               if win_screen (window e) = None then ''error'' else ''Display & Viewport'',
               ''Hardware Hints'',
               ''Battery'',
               ''Network'',
               ''Geolocation'',
               if enumerateDevices (navigator e) = None then ''Media Devices''
               else ''Media & Devices'',
               ''Permissions'',
               ''Performance'',
               ''Sensors'',
               ''Canvas / Audio Probes'',
               if isl (nav_serviceWorker (navigator e)) then ''error'' else ''Web APIs'']"
      unfolding probes_def list.map
      by (simp only: title_gatherBasic title_gatherScreen title_gatherHardware
          title_gatherBattery [OF s(1)] title_gatherNetwork title_gatherGeo [OF s(2)]
          title_gatherMediaDevices [OF s(3)] title_gatherPermissions [OF s(4)]
          title_gatherPerformance title_gatherSensors title_gatherCanvasAudio
          title_gatherWebAPIs)
    show ?thesis using root cards titles by simp
  qed
  show ?thesis using pre fin by blast
qed


theorem groups_in_declared_order_witness:
  "CARDS_ROOT page_initial \<noteq> None \<and>
   snd (gatherAll env_slow page_initial) \<noteq> None \<and>
   map_option (map title) (CARDS_ROOT (fst (gatherAll env_slow page_initial))) =
     Some [''Browser & Locale'', ''Display & Viewport'', ''Hardware Hints'', ''Battery'',
           ''Network'', ''Geolocation'', ''Media & Devices'', ''Permissions'', ''Performance'',
           ''Sensors'', ''Canvas / Audio Probes'', ''Web APIs''] \<and>
   snd (gatherAll env_sandboxed page_initial) \<noteq> None \<and>
   map_option (map title) (CARDS_ROOT (fst (gatherAll env_sandboxed page_initial))) =
     Some [''Browser & Locale'', ''Display & Viewport'', ''Hardware Hints'', ''Battery'',
           ''Network'', ''Geolocation'', ''Media & Devices'', ''Permissions'', ''Performance'',
           ''Sensors'', ''Canvas / Audio Probes'', ''error'']"
proof -
  have r: "CARDS_ROOT page_initial \<noteq> None"
    by (simp add: page_initial_def)
  have f: "snd (gatherAll env_slow page_initial) \<noteq> None"
    by (simp add: gatherAll_env_slow_time)
  have f': "snd (gatherAll env_sandboxed page_initial) \<noteq> None"
    by (simp add: gatherAll_env_sandboxed_time)
  have s: "win_screen (window env_slow) \<noteq> None" "enumerateDevices (navigator env_slow) \<noteq> None"
    "\<not> isl (nav_serviceWorker (navigator env_slow))"
    by (simp_all add: env_slow_def env_sample_def window_sample_def navigator_sample_def
        enumerateDevices_def)
  have s': "win_screen (window env_sandboxed) \<noteq> None"
    "enumerateDevices (navigator env_sandboxed) \<noteq> None"
    "isl (nav_serviceWorker (navigator env_sandboxed))"
    by (simp_all add: env_sandboxed_def env_sample_def window_sample_def navigator_sample_def
        enumerateDevices_def)
  note a = groups_in_declared_order [OF r, of env_slow, THEN conjunct2, rule_format, OF f]
  note b = groups_in_declared_order [OF r, of env_sandboxed, THEN conjunct2, rule_format, OF f']
  have t: "map_option (map title) (CARDS_ROOT (fst (gatherAll env_slow page_initial))) =
     Some [''Browser & Locale'', ''Display & Viewport'', ''Hardware Hints'', ''Battery'',
           ''Network'', ''Geolocation'', ''Media & Devices'', ''Permissions'', ''Performance'',
           ''Sensors'', ''Canvas / Audio Probes'', ''Web APIs'']"
    using s a [THEN conjunct2] by (simp add: a [THEN conjunct1])
  have t': "map_option (map title) (CARDS_ROOT (fst (gatherAll env_sandboxed page_initial))) =
     Some [''Browser & Locale'', ''Display & Viewport'', ''Hardware Hints'', ''Battery'',
           ''Network'', ''Geolocation'', ''Media & Devices'', ''Permissions'', ''Performance'',
           ''Sensors'', ''Canvas / Audio Probes'', ''error'']"
    using s' b [THEN conjunct2] by (simp add: b [THEN conjunct1])
  show ?thesis
    by (intro conjI r f f' t t')
qed

subsection \<open>Probes that reject\<close>

lemma gatherScreen_rejects_iff:
  "gatherScreen e = Rejected d err \<longleftrightarrow>
   win_screen (window e) = None \<and> d = 0 \<and> err = TypeError"
  by (auto simp: gatherScreen_def Let_def split: option.splits)

lemma other_probes_never_reject:
  "gatherBasic e \<noteq> Rejected d err"
  "gatherHardware e \<noteq> Rejected d err"
  "gatherBattery e \<noteq> Rejected d err"
  "gatherNetwork e \<noteq> Rejected d err"
  "gatherGeo e \<noteq> Rejected d err"
  "gatherMediaDevices e \<noteq> Rejected d err"
  "gatherPermissions e \<noteq> Rejected d err"
  "gatherPerformance e \<noteq> Rejected d err"
  "gatherSensors e \<noteq> Rejected d err"
  "gatherCanvasAudioFingerprintingProbe e \<noteq> Rejected d err"
  by (simp_all add: gatherBasic_def gatherHardware_def gatherBattery_def gatherNetwork_def
      gatherGeo_def gatherGeo_run_def gatherMediaDevices_def gatherPermissions_def
      gatherPerformance_def gatherSensors_def gatherCanvasAudioFingerprintingProbe_def
      Let_def split: option.splits settle.splits prod.splits)

lemma gatherWebAPIs_rejects_iff:
  "gatherWebAPIs e = Rejected d err \<longleftrightarrow>
   nav_serviceWorker (navigator e) = Inl err \<and> d = 0"
  by (auto simp: gatherWebAPIs_def features_def Let_def split: sum.splits)

lemma gatherWebAPIs_rejects_in_sandbox: "gatherWebAPIs env_sandboxed = Rejected 0 DOMException"
  by (simp add: gatherWebAPIs_rejects_iff env_sandboxed_def)

lemma probes_settle:
  assumes "all_settle e"
  shows "\<forall>p \<in> set probes. p e \<noteq> Pending"
proof -
  have b: "gatherBattery e \<noteq> Pending"
    using assms by (auto simp: gatherBattery_pending_iff all_settle_def)
  have m: "gatherMediaDevices e \<noteq> Pending"
    using assms by (auto simp: gatherMediaDevices_pending_iff all_settle_def)
  have p: "gatherPermissions e \<noteq> Pending"
    using assms by (auto simp: gatherPermissions_pending_iff all_settle_def)
  have g: "gatherGeo e \<noteq> Pending"
    using assms
    by (auto simp: gatherGeo_pending_iff geo_permState_def all_settle_def permissions_query_def
        split: option.splits settle.splits)
  have s: "gatherScreen e \<noteq> Pending"
    by (simp add: gatherScreen_def Let_def split: option.splits)
  have w: "gatherWebAPIs e \<noteq> Pending"
    by (simp add: gatherWebAPIs_def features_def Let_def split: sum.splits)
  show ?thesis
    using b m p g s w
    by (simp add: probes_def gatherBasic_def gatherHardware_def gatherNetwork_def
        gatherPerformance_def gatherSensors_def gatherCanvasAudioFingerprintingProbe_def
        Let_def)
qed

lemma gatherAll_resolves: "all_settle e \<Longrightarrow> snd (gatherAll e pg) \<noteq> None"
  using run_probes_settled_finishes [OF probes_settle, of e "[]" 0]
  by (simp add: gatherAll_time)

lemma all_settle_env_absent: "all_settle env_absent"
  by (simp add: all_settle_def env_absent_def navigator_absent_def permissions_query_def
      enumerateDevices_def)

lemma all_settle_env_throws: "all_settle env_throws"
  by (simp add: all_settle_def env_throws_def navigator_throws_def permissions_query_def
      enumerateDevices_def)

lemma gatherAll_resolves_when_all_absent_or_throwing:
  "snd (gatherAll env_absent pg) \<noteq> None \<and> snd (gatherAll env_throws pg) \<noteq> None"
  by (simp add: gatherAll_resolves all_settle_env_absent all_settle_env_throws)

lemma probes_reject_only_at_unguarded_reads:
  "\<forall>p \<in> set probes. p e = Rejected d err \<longrightarrow>
     win_screen (window e) = None \<or> isl (nav_serviceWorker (navigator e))"
  by (auto simp: probes_def other_probes_never_reject gatherScreen_rejects_iff
      gatherWebAPIs_rejects_iff)

text \<open>
  C2: no probe raises past its own boundary, and the full run resolves even when
  every API is absent. With no \<open>window.screen\<close> the probe \<open>gatherScreen\<close> does
  reject, at its read of \<open>screen.orientation\<close>; the run resolves all the same,
  with the error group in that probe's place. (So does \<open>gatherWebAPIs\<close> where
  the getter of \<open>navigator.serviceWorker\<close> throws; no other probe rejects.)
\<close>

theorem gatherScreen_rejects_without_screen:
  "win_screen (window env_absent) = None \<and>
   gatherScreen env_absent = Rejected 0 TypeError \<and>
   snd (gatherAll env_absent page_initial) = Some 0 \<and>
   map_option (map title) (CARDS_ROOT (fst (gatherAll env_absent page_initial))) =
     Some [''Browser & Locale'', ''error'', ''Hardware Hints'', ''Battery'', ''Network'',
           ''Geolocation'', ''Media Devices'', ''Permissions'', ''Performance'', ''Sensors'',
           ''Canvas / Audio Probes'', ''Web APIs'']"
  by (simp add: gatherAll_def page_initial_def probes_def gatherBasic_def gatherScreen_def
      gatherHardware_def gatherBattery_def gatherNetwork_def gatherGeo_def gatherGeo_run_def
      gatherMediaDevices_def enumerateDevices_def gatherPermissions_def
      permissions_query_def gatherPerformance_def gatherSensors_def
      gatherCanvasAudioFingerprintingProbe_def gatherWebAPIs_def features_def Let_def
      mkCard_def env_absent_def navigator_absent_def window_absent_def)

section \<open>Running twice\<close>

lemma same_outcome_alike: "same_outcome x y \<Longrightarrow> settle_alike x y"
  by (cases x; cases y) simp_all

lemma same_outcome_refl: "same_outcome x x"
  by (cases x) simp_all

lemma run_probes_alike:
  "\<forall>p \<in> set ps. settle_alike (p e1) (p e2) \<Longrightarrow>
   map group_keys r1 = map group_keys r2 \<Longrightarrow>
   map group_keys (fst (run_probes ps e1 r1 t1)) = map group_keys (fst (run_probes ps e2 r2 t2)) \<and>
   (snd (run_probes ps e1 r1 t1) = None \<longleftrightarrow> snd (run_probes ps e2 r2 t2) = None)"
proof (induction ps arbitrary: r1 r2 t1 t2)
  case Nil
  then show ?case by simp
next
  case (Cons p ps)
  have a: "settle_alike (p e1) (p e2)" using Cons.prems(1) by simp
  have rest: "\<forall>q \<in> set ps. settle_alike (q e1) (q e2)" using Cons.prems(1) by simp
  show ?case
  proof (cases "p e1")
    case Pending
    then have "p e2 = Pending" using a by (cases "p e2") simp_all
    then show ?thesis using Pending Cons.prems(2) by simp
  next
    case (Resolved d c)
    then obtain d' c' where c': "p e2 = Resolved d' c'" "group_keys c = group_keys c'"
      using a by (cases "p e2") simp_all
    have "map group_keys (r1 @ [c]) = map group_keys (r2 @ [c'])"
      using Cons.prems(2) c'(2) by simp
    from Cons.IH [OF rest this, of "t1 + d" "t2 + d'"] show ?thesis
      using Resolved c'(1) by simp
  next
    case (Rejected d err)
    then obtain d' err' where e': "p e2 = Rejected d' err'"
      using a by (cases "p e2") simp_all
    have "map group_keys (r1 @ [mkCard ''error'' (Para ''unknown'')]) =
          map group_keys (r2 @ [mkCard ''error'' (Para ''unknown'')])"
      using Cons.prems(2) by simp
    from Cons.IH [OF rest this, of "t1 + d" "t2 + d'"] show ?thesis
      using Rejected e' by simp
  qed
qed

text \<open>Probes as functions of the fields they read.\<close>

lemma gatherBattery_same:
  assumes "rel_option same_answer (nav_getBattery (navigator e1)) (nav_getBattery (navigator e2))"
  shows "same_outcome (gatherBattery e1) (gatherBattery e2)"
proof (cases "nav_getBattery (navigator e1)")
  case None
  then have "nav_getBattery (navigator e2) = None" using assms by (cases "nav_getBattery (navigator e2)") simp_all
  then show ?thesis using None by (simp add: gatherBattery_def)
next
  case (Some c)
  then obtain d where d: "nav_getBattery (navigator e2) = Some d" "same_answer c d"
    using assms by (cases "nav_getBattery (navigator e2)") simp_all
  show ?thesis
    using Some d
    by (cases "await_call c"; cases "await_call d")
       (simp_all add: gatherBattery_def same_answer_def)
qed

lemma gatherMediaDevices_same:
  assumes "rel_option same_answer (enumerateDevices (navigator e1)) (enumerateDevices (navigator e2))"
  shows "same_outcome (gatherMediaDevices e1) (gatherMediaDevices e2)"
proof (cases "enumerateDevices (navigator e1)")
  case None
  then have "enumerateDevices (navigator e2) = None"
    using assms by (cases "enumerateDevices (navigator e2)") simp_all
  then show ?thesis using None by (simp add: gatherMediaDevices_def)
next
  case (Some c)
  then obtain d where d: "enumerateDevices (navigator e2) = Some d" "same_answer c d"
    using assms by (cases "enumerateDevices (navigator e2)") simp_all
  show ?thesis
    using Some d
    by (cases "await_call c"; cases "await_call d")
       (simp_all add: gatherMediaDevices_def same_answer_def)
qed

lemma query_each_same:
  "\<forall>name. same_answer (q1 name) (q2 name) \<Longrightarrow>
   map_option fst (query_each q1 ns el t1) = map_option fst (query_each q2 ns el t2)"
proof (induction ns arbitrary: el t1 t2)
  case Nil
  then show ?case by simp
next
  case (Cons n ns)
  have a: "same_outcome (await_call (q1 n)) (await_call (q2 n))"
    using Cons.prems by (simp add: same_answer_def)
  show ?case
  proof (cases "await_call (q1 n)")
    case Pending
    then have "await_call (q2 n) = Pending" using a by (cases "await_call (q2 n)") simp_all
    then show ?thesis using Pending by simp
  next
    case (Resolved d st)
    then obtain d' where "await_call (q2 n) = Resolved d' st"
      using a by (cases "await_call (q2 n)") simp_all
    then show ?thesis
      using Resolved Cons.IH [OF Cons.prems, of "el @ [mkKV n st]" "t1 + d" "t2 + d'"] by simp
  next
    case (Rejected d err)
    then obtain d' err' where "await_call (q2 n) = Rejected d' err'"
      using a by (cases "await_call (q2 n)") simp_all
    then show ?thesis
      using Rejected
        Cons.IH [OF Cons.prems, of "el @ [mkKV n (JStr ''unknown'')]" "t1 + d" "t2 + d'"]
      by simp
  qed
qed

lemma gatherPermissions_same:
  assumes "rel_option (\<lambda>q1 q2. \<forall>name. same_answer (q1 name) (q2 name))
       (permissions_query (navigator e1)) (permissions_query (navigator e2))"
  shows "same_outcome (gatherPermissions e1) (gatherPermissions e2)"
proof (cases "permissions_query (navigator e1)")
  case None
  then have "permissions_query (navigator e2) = None"
    using assms by (cases "permissions_query (navigator e2)") simp_all
  then show ?thesis using None by (simp add: gatherPermissions_def)
next
  case (Some q1)
  then obtain q2 where q2: "permissions_query (navigator e2) = Some q2"
    "\<forall>name. same_answer (q1 name) (q2 name)"
    using assms by (cases "permissions_query (navigator e2)") simp_all
  have "map_option fst (query_each q1 names [] 0) = map_option fst (query_each q2 names [] 0)"
    using q2(2) by (rule query_each_same)
  then show ?thesis
    using Some q2(1)
    by (cases "query_each q1 names [] 0"; cases "query_each q2 names [] 0")
       (auto simp: gatherPermissions_def)
qed

lemma geo_permState_same:
  assumes "rel_option (\<lambda>q1 q2. \<forall>name. same_answer (q1 name) (q2 name))
       (permissions_query n1) (permissions_query n2)"
  shows "map_option snd (geo_permState n1) = map_option snd (geo_permState n2)"
proof -
  have g: "geo_permState n =
     (case permissions_query n of
        None \<Rightarrow> Some (0, JStr ''unknown'')
      | Some query \<Rightarrow>
          (case await_call (query ''geolocation'') of
             Pending \<Rightarrow> None
           | Resolved t st \<Rightarrow> Some (t, st)
           | Rejected t err \<Rightarrow> Some (t, JStr ''unknown'')))" for n
    by (simp add: geo_permState_def permissions_query_def split: option.splits)
  show ?thesis
  proof (cases "permissions_query n1")
    case None
    then have "permissions_query n2 = None"
      using assms by (cases "permissions_query n2") simp_all
    then show ?thesis using None by (simp add: g)
  next
    case (Some q1)
    then obtain q2 where q2: "permissions_query n2 = Some q2"
      "same_answer (q1 ''geolocation'') (q2 ''geolocation'')"
      using assms by (cases "permissions_query n2") simp_all
    show ?thesis
      using Some q2
      by (cases "await_call (q1 ''geolocation'')"; cases "await_call (q2 ''geolocation'')")
         (simp_all add: g same_answer_def)
  qed
qed

lemma gatherGeo_same:
  assumes "nav_has_geolocation (navigator e1) = nav_has_geolocation (navigator e2)"
    and "map_option snd (geo_permState (navigator e1)) = map_option snd (geo_permState (navigator e2))"
    and "same_outcome (wait_position (nav_getCurrentPosition (navigator e1)))
                      (wait_position (nav_getCurrentPosition (navigator e2)))"
  shows "same_outcome (gatherGeo e1) (gatherGeo e2)"
proof (cases "nav_has_geolocation (navigator e1)")
  case False
  then show ?thesis using assms(1) by (simp add: gatherGeo_def gatherGeo_run_def)
next
  case True
  show ?thesis
  proof (cases "geo_permState (navigator e1)")
    case None
    then have "geo_permState (navigator e2) = None" using assms(2) by simp
    then show ?thesis using None True assms(1) by (simp add: gatherGeo_def gatherGeo_run_def)
  next
    case (Some a)
    obtain t st where a: "a = (t, st)" by (cases a)
    obtain u where u: "geo_permState (navigator e2) = Some (u, st)"
      using assms(2) Some a by (cases "geo_permState (navigator e2)") auto
    show ?thesis
      using True assms(1,3) Some a u
      by (cases "wait_position (nav_getCurrentPosition (navigator e1))";
          cases "wait_position (nav_getCurrentPosition (navigator e2))")
         (simp_all add: gatherGeo_def gatherGeo_run_def Let_def)
  qed
qed

lemma performance_rows_keys_Some:
  "map key (performance_rows (Some p)) =
     [''timeOrigin''] @
     (if isl (perf_nav p) then [''performance'']
      else (if perf_nav p = Inr None \<and> perf_timing p = None then []
            else [''domContentLoaded'', ''loadEventEnd'']) @
           (if isl (perf_now p) then [''performance''] else [''perfNow'']))"
proof (cases "perf_nav p")
  case (Inl err)
  then show ?thesis by (simp add: performance_rows_def mkKV_def)
next
  case (Inr nav)
  show ?thesis
  proof (cases "perf_now p")
    case (Inl err)
    show ?thesis
      using Inr Inl
      by (cases nav; cases "perf_timing p") (simp_all add: performance_rows_def mkKV_def)
  next
    case now: (Inr v)
    show ?thesis
      using Inr now
      by (cases nav; cases "perf_timing p") (simp_all add: performance_rows_def mkKV_def)
  qed
qed

lemma performance_rows_keys:
  assumes "map_option perf_shape p = map_option perf_shape q"
  shows "map key (performance_rows p) = map key (performance_rows q)"
proof (cases p)
  case None
  then have "q = None" using assms by simp
  then show ?thesis using None by simp
next
  case (Some a)
  then obtain b where b: "q = Some b" "perf_shape a = perf_shape b"
    using assms by (cases q) simp_all
  have "isl (perf_nav a) = isl (perf_nav b)" "(perf_nav a = Inr None) = (perf_nav b = Inr None)"
    "(perf_timing a = None) = (perf_timing b = None)" "isl (perf_now a) = isl (perf_now b)"
    using b(2) by (simp_all add: perf_shape_def)
  then show ?thesis
    unfolding Some b(1) performance_rows_keys_Some by simp
qed

lemma unchanged_probes:
  assumes "e2 = e1
       \<lparr>navigator := (navigator e1)
          \<lparr>nav_getBattery := b, nav_getCurrentPosition := g, nav_permissions := p,
           nav_mediaDevices := m\<rparr>,
        performance := x\<rparr>"
  shows "gatherBasic e2 = gatherBasic e1"
    and "gatherScreen e2 = gatherScreen e1"
    and "gatherHardware e2 = gatherHardware e1"
    and "gatherNetwork e2 = gatherNetwork e1"
    and "gatherSensors e2 = gatherSensors e1"
    and "gatherCanvasAudioFingerprintingProbe e2 = gatherCanvasAudioFingerprintingProbe e1"
    and "gatherWebAPIs e2 = gatherWebAPIs e1"
    and "nav_has_geolocation (navigator e2) = nav_has_geolocation (navigator e1)"
proof -
  have w: "webgl_rows e2 = webgl_rows e1"
    unfolding assms by (simp add: webgl_rows_def cong: sum.case_cong option.case_cong)
  show "gatherBasic e2 = gatherBasic e1"
    unfolding assms
    by (simp add: gatherBasic_def userAgentData_fn_def languages_joined_def Let_def)
  show "gatherScreen e2 = gatherScreen e1"
    unfolding assms by (simp add: gatherScreen_def)
  show "gatherHardware e2 = gatherHardware e1"
    using w unfolding assms by (simp add: gatherHardware_def Let_def)
  have c: "navConn (navigator e2) = navConn (navigator e1)"
    unfolding assms by (simp add: navConn_def cong: option.case_cong)
  show "gatherNetwork e2 = gatherNetwork e1"
    using c by (simp add: gatherNetwork_def Let_def assms)
  show "gatherSensors e2 = gatherSensors e1"
    unfolding assms by (simp add: gatherSensors_def)
  show "gatherCanvasAudioFingerprintingProbe e2 = gatherCanvasAudioFingerprintingProbe e1"
    unfolding assms
    by (simp add: gatherCanvasAudioFingerprintingProbe_def canvas_row_def audio_row_def)
  have f: "features e2 = features e1"
    unfolding assms by (simp add: features_def Let_def cong: sum.case_cong)
  show "gatherWebAPIs e2 = gatherWebAPIs e1"
    using f by (simp add: gatherWebAPIs_def)
  show "nav_has_geolocation (navigator e2) = nav_has_geolocation (navigator e1)"
    unfolding assms by simp
qed

lemma probes_same:
  assumes "same_state_up_to_timing e1 e2"
  shows "same_outcome (gatherBasic e1) (gatherBasic e2)"
    and "same_outcome (gatherScreen e1) (gatherScreen e2)"
    and "same_outcome (gatherHardware e1) (gatherHardware e2)"
    and "same_outcome (gatherBattery e1) (gatherBattery e2)"
    and "same_outcome (gatherNetwork e1) (gatherNetwork e2)"
    and "same_outcome (gatherGeo e1) (gatherGeo e2)"
    and "same_outcome (gatherMediaDevices e1) (gatherMediaDevices e2)"
    and "same_outcome (gatherPermissions e1) (gatherPermissions e2)"
    and "same_outcome (gatherSensors e1) (gatherSensors e2)"
    and "same_outcome (gatherCanvasAudioFingerprintingProbe e1)
           (gatherCanvasAudioFingerprintingProbe e2)"
    and "same_outcome (gatherWebAPIs e1) (gatherWebAPIs e2)"
proof -
  have eq: "e2 = e1
       \<lparr>navigator := (navigator e1)
          \<lparr>nav_getBattery := nav_getBattery (navigator e2),
           nav_getCurrentPosition := nav_getCurrentPosition (navigator e2),
           nav_permissions := nav_permissions (navigator e2),
           nav_mediaDevices := nav_mediaDevices (navigator e2)\<rparr>,
        performance := performance e2\<rparr>"
    using assms by (simp add: same_state_up_to_timing_def)
  note u = unchanged_probes [OF eq]
  show "same_outcome (gatherBasic e1) (gatherBasic e2)"
    "same_outcome (gatherScreen e1) (gatherScreen e2)"
    "same_outcome (gatherHardware e1) (gatherHardware e2)"
    "same_outcome (gatherNetwork e1) (gatherNetwork e2)"
    "same_outcome (gatherSensors e1) (gatherSensors e2)"
    "same_outcome (gatherCanvasAudioFingerprintingProbe e1)
           (gatherCanvasAudioFingerprintingProbe e2)"
    "same_outcome (gatherWebAPIs e1) (gatherWebAPIs e2)"
    by (simp_all only: u same_outcome_refl)
  show "same_outcome (gatherBattery e1) (gatherBattery e2)"
    using assms by (intro gatherBattery_same) (simp add: same_state_up_to_timing_def)
  show "same_outcome (gatherMediaDevices e1) (gatherMediaDevices e2)"
    using assms by (intro gatherMediaDevices_same) (simp add: same_state_up_to_timing_def)
  show "same_outcome (gatherPermissions e1) (gatherPermissions e2)"
    using assms by (intro gatherPermissions_same) (simp add: same_state_up_to_timing_def)
  have "map_option snd (geo_permState (navigator e1)) = map_option snd (geo_permState (navigator e2))"
    using assms by (intro geo_permState_same) (simp add: same_state_up_to_timing_def)
  then show "same_outcome (gatherGeo e1) (gatherGeo e2)"
    using assms u(8) by (intro gatherGeo_same) (simp_all add: same_state_up_to_timing_def)
qed

lemma gatherPerformance_alike:
  "map_option perf_shape (performance e1) = map_option perf_shape (performance e2) \<Longrightarrow>
   settle_alike (gatherPerformance e1) (gatherPerformance e2)"
  using performance_rows_keys [of "performance e1" "performance e2"]
  by (simp add: gatherPerformance_def group_keys_def mkCard_def rows_def)

lemma probes_alike:
  assumes "same_state_up_to_timing e1 e2"
  shows "\<forall>p \<in> set probes. settle_alike (p e1) (p e2)"
proof -
  have perf: "settle_alike (gatherPerformance e1) (gatherPerformance e2)"
    using assms by (intro gatherPerformance_alike) (simp add: same_state_up_to_timing_def)
  show ?thesis
    unfolding probes_def using perf probes_same [OF assms]
    by (simp add: same_outcome_alike)
qed

lemma other_probes_same:
  assumes "same_state_up_to_timing e1 e2" "i < length probes" "i \<noteq> 8"
  shows "same_outcome ((probes ! i) e1) ((probes ! i) e2)"
proof -
  have "i < 12"
    using assms(2) by (simp add: probes_def)
  then have "i = 0 \<or> i = 1 \<or> i = 2 \<or> i = 3 \<or> i = 4 \<or> i = 5 \<or> i = 6 \<or> i = 7 \<or>
      i = 9 \<or> i = 10 \<or> i = 11"
    using assms(3) by presburger
  then show ?thesis
    using probes_same [OF assms(1)]
    by (elim disjE) (simp_all add: probes_def)
qed

lemma rerun_late_fix_keys:
  "map key (rows (placed env_geo_fix gatherGeo)) =
     [''permission'', ''coords'', ''accuracy_m'', ''altitude''] \<and>
   map key (rows (placed env_geo_late gatherGeo)) = [''permission'', ''coords'']"
  by (simp add: placed_def gatherGeo_def gatherGeo_run_def geo_permState_def Let_def mkCard_def
      rows_def mkKV_def env_geo_late_def env_geo_fix_def navigator_sample_def)

lemma rerun_late_fix_run:
  "map_option (map group_keys)
     (CARDS_ROOT (fst (gatherAll env_geo_late (fst (gatherAll env_geo_fix page_initial))))) \<noteq>
   map_option (map group_keys) (CARDS_ROOT (fst (gatherAll env_geo_fix page_initial)))"
proof -
  have r: "CARDS_ROOT page_initial \<noteq> None" by (simp add: page_initial_def)
  have a: "CARDS_ROOT (fst (gatherAll env_geo_fix page_initial)) =
             Some (map (placed env_geo_fix) (takeWhile (\<lambda>p. p env_geo_fix \<noteq> Pending) probes))"
    using r by (rule gatherAll_cards)
  then have "CARDS_ROOT (fst (gatherAll env_geo_fix page_initial)) \<noteq> None" by simp
  then have b: "CARDS_ROOT (fst (gatherAll env_geo_late (fst (gatherAll env_geo_fix page_initial)))) =
             Some (map (placed env_geo_late) (takeWhile (\<lambda>p. p env_geo_late \<noteq> Pending) probes))"
    by (rule gatherAll_cards)
  have f: "takeWhile (\<lambda>p. p env_geo_fix \<noteq> Pending) probes = probes"
    "takeWhile (\<lambda>p. p env_geo_late \<noteq> Pending) probes = probes"
    by (simp_all add: run_defs env_geo_late_def env_geo_fix_def env_sample_def
        navigator_sample_def window_sample_def)
  have "group_keys (placed env_geo_late gatherGeo) \<noteq> group_keys (placed env_geo_fix gatherGeo)"
    using rerun_late_fix_keys by (simp add: group_keys_def)
  then show ?thesis
    unfolding a b f by (simp add: probes_def)
qed

text \<open>
  C8, as stated: two runs in the same state of the environment (the same APIs there,
  returning the same values) give the same group titles and row keys, whatever the
  timing. But when the same position fix arrives after 9000 ms instead of 1200 ms,
  the timer of \<open>gatherGeo\<close> has fired first, and the keys of the geolocation group
  are \<open>permission, coords\<close> instead of
  \<open>permission, coords, accuracy_m, altitude\<close>.
\<close>

theorem rerun_keys_depend_on_timing_counterexample:
  "nav_getCurrentPosition (navigator env_geo_fix) =
     GeoSuccess 1200
       \<lparr>pos_latitude = JNum (Finite False 525 2), pos_longitude = JNum (Finite False 134 2),
        pos_accuracy = JNum (Finite False 25 2), pos_altitude = JNull\<rparr> \<and>
   env_geo_late =
     env_geo_fix\<lparr>navigator := (navigator env_geo_fix)
       \<lparr>nav_getCurrentPosition :=
          GeoSuccess 9000
            \<lparr>pos_latitude = JNum (Finite False 525 2), pos_longitude = JNum (Finite False 134 2),
             pos_accuracy = JNum (Finite False 25 2), pos_altitude = JNull\<rparr>\<rparr>\<rparr> \<and>
   map key (rows (placed env_geo_fix gatherGeo)) =
     [''permission'', ''coords'', ''accuracy_m'', ''altitude''] \<and>
   map key (rows (placed env_geo_late gatherGeo)) = [''permission'', ''coords''] \<and>
   map_option (map group_keys)
     (CARDS_ROOT (fst (gatherAll env_geo_late (fst (gatherAll env_geo_fix page_initial))))) \<noteq>
   map_option (map group_keys) (CARDS_ROOT (fst (gatherAll env_geo_fix page_initial)))"
proof -
  have a: "nav_getCurrentPosition (navigator env_geo_fix) =
     GeoSuccess 1200
       \<lparr>pos_latitude = JNum (Finite False 525 2), pos_longitude = JNum (Finite False 134 2),
        pos_accuracy = JNum (Finite False 25 2), pos_altitude = JNull\<rparr>"
    by (simp add: env_geo_fix_def)
  have b: "env_geo_late =
     env_geo_fix\<lparr>navigator := (navigator env_geo_fix)
       \<lparr>nav_getCurrentPosition :=
          GeoSuccess 9000
            \<lparr>pos_latitude = JNum (Finite False 525 2), pos_longitude = JNum (Finite False 134 2),
             pos_accuracy = JNum (Finite False 25 2), pos_altitude = JNull\<rparr>\<rparr>\<rparr>"
    by (simp add: env_geo_late_def)
  show ?thesis
    using rerun_late_fix_keys
    by (intro conjI a b rerun_late_fix_run) simp_all
qed

text \<open>
  C8, amended: a second run in a state of the environment that differs from the
  first in timing at most (the same values, every awaited promise settling the same
  way, the position fix on the same side of the 8000 ms timer; latencies and the
  clock of \<open>performance\<close> free) gives the same group titles and row keys as the
  first, and finishes if the first does; every probe but \<open>gatherPerformance\<close>, the
  ninth, gives the same card, values included; in the very same state the whole
  page is the same.
\<close>

theorem same_titles_and_keys_on_rerun:
  assumes "same_state_up_to_timing e1 e2" and "CARDS_ROOT pg \<noteq> None"
  shows "map_option (map group_keys) (CARDS_ROOT (fst (gatherAll e2 (fst (gatherAll e1 pg))))) =
           map_option (map group_keys) (CARDS_ROOT (fst (gatherAll e1 pg))) \<and>
         (snd (gatherAll e2 (fst (gatherAll e1 pg))) = None \<longleftrightarrow> snd (gatherAll e1 pg) = None) \<and>
         (\<forall>i < length probes. i \<noteq> 8 \<longrightarrow> same_outcome ((probes ! i) e1) ((probes ! i) e2)) \<and>
         (e2 = e1 \<longrightarrow> gatherAll e2 (fst (gatherAll e1 pg)) = gatherAll e1 pg)"
proof -
  have r1: "CARDS_ROOT (fst (gatherAll e1 pg)) = Some (fst (run_probes probes e1 [] 0))"
    using assms(2) by (rule gatherAll_root)
  then have ne: "CARDS_ROOT (fst (gatherAll e1 pg)) \<noteq> None" by simp
  have r2: "CARDS_ROOT (fst (gatherAll e2 (fst (gatherAll e1 pg)))) =
              Some (fst (run_probes probes e2 [] 0))"
    using ne by (rule gatherAll_root)
  have alike: "map group_keys (fst (run_probes probes e1 [] 0)) =
                 map group_keys (fst (run_probes probes e2 [] 0)) \<and>
               (snd (run_probes probes e1 [] 0) = None \<longleftrightarrow> snd (run_probes probes e2 [] 0) = None)"
    using probes_alike [OF assms(1)] by (intro run_probes_alike) simp_all
  have keys: "map_option (map group_keys) (CARDS_ROOT (fst (gatherAll e2 (fst (gatherAll e1 pg))))) =
           map_option (map group_keys) (CARDS_ROOT (fst (gatherAll e1 pg)))"
    using r1 r2 alike by simp
  have fin: "snd (gatherAll e2 (fst (gatherAll e1 pg))) = None \<longleftrightarrow> snd (gatherAll e1 pg) = None"
    using alike by (simp add: gatherAll_time ne assms(2))
  have others: "\<forall>i < length probes. i \<noteq> 8 \<longrightarrow> same_outcome ((probes ! i) e1) ((probes ! i) e2)"
    using other_probes_same [OF assms(1)] by blast
  have same: "gatherAll e1 (fst (gatherAll e1 pg)) = gatherAll e1 pg"
    using assms(2) by (auto simp: gatherAll_def split: option.splits prod.splits)
  have idem: "e2 = e1 \<longrightarrow> gatherAll e2 (fst (gatherAll e1 pg)) = gatherAll e1 pg"
    using same by simp
  show ?thesis
    by (intro conjI keys fin others idem)
qed

theorem same_titles_and_keys_on_rerun_witness:
  "same_state_up_to_timing env_sample env_sample_slower \<and>
   CARDS_ROOT page_initial \<noteq> None \<and>
   nav_getBattery (navigator env_sample_slower) \<noteq> nav_getBattery (navigator env_sample) \<and>
   performance env_sample_slower \<noteq> performance env_sample \<and>
   map_option (map group_keys)
     (CARDS_ROOT (fst (gatherAll env_sample_slower (fst (gatherAll env_sample page_initial))))) =
   map_option (map group_keys) (CARDS_ROOT (fst (gatherAll env_sample page_initial))) \<and>
   (snd (gatherAll env_sample_slower (fst (gatherAll env_sample page_initial))) = None \<longleftrightarrow>
    snd (gatherAll env_sample page_initial) = None) \<and>
   (3::nat) < length probes \<and> (3::nat) \<noteq> 8 \<and>
   same_outcome ((probes ! 3) env_sample) ((probes ! 3) env_sample_slower)"
proof -
  have s: "same_state_up_to_timing env_sample env_sample_slower"
    by (simp add: same_state_up_to_timing_def same_answer_def env_sample_slower_def
        env_sample_def navigator_sample_def permissions_query_def enumerateDevices_def
        perf_shape_def performance_later_def performance_sample_def same_outcome_refl)
  have r: "CARDS_ROOT page_initial \<noteq> None"
    by (simp add: page_initial_def)
  have d: "nav_getBattery (navigator env_sample_slower) \<noteq> nav_getBattery (navigator env_sample)"
    "performance env_sample_slower \<noteq> performance env_sample"
    by (simp_all add: env_sample_slower_def env_sample_def navigator_sample_def
        performance_later_def performance_sample_def)
  have l: "(3::nat) < length probes" "(3::nat) \<noteq> 8"
    by (simp_all add: probes_def)
  note t = same_titles_and_keys_on_rerun [OF s r]
  have o: "same_outcome ((probes ! 3) env_sample) ((probes ! 3) env_sample_slower)"
    using t [THEN conjunct2, THEN conjunct2, THEN conjunct1] l by blast
  show ?thesis
    by (intro conjI s r d t [THEN conjunct1] t [THEN conjunct2, THEN conjunct1] l o)
qed

end
